theory Spec2Isabelle
  imports Complex_Main
begin

section \<open>Errors\<close>

text \<open>
  The exceptions the modelled code can raise. \<open>KeyError\<close> and \<open>IndexError\<close> come from
  Python's own dictionary and list indexing, \<open>ZeroDivisionError\<close> from float division,
  \<open>RuntimeError\<close> is what the tensor library raises on tensors of the wrong shape, and
  \<open>LoadError\<close> stands for any failure of the download of a weight file.
\<close>

datatype error =
    KeyError string
  | IndexError
  | ZeroDivisionError
  | RuntimeError string
  | LoadError string

definition bindE :: "error + 'a \<Rightarrow> ('a \<Rightarrow> error + 'b) \<Rightarrow> error + 'b" where
  "bindE m f = (case m of Inl e \<Rightarrow> Inl e | Inr x \<Rightarrow> f x)"

section \<open>Tensors and the in-place copy\<close>

text \<open>
  The element types of the tensor library.
\<close>

datatype dtype =
    Float16 | BFloat16 | Float32 | Float64
  | UInt8 | Int8 | Int16 | Int32 | Int64 | BoolT

text \<open>
  A tensor of the weight importer: its shape, its element type and its elements in
  row-major order. The values that elements take are left open (\<open>'a\<close>): the code copies
  elements and never computes with them.
\<close>

record 'a tensor =
  shape :: "nat list"
  dtype :: dtype
  elems :: "'a list"

text \<open>
  Broadcasting, as \<open>Tensor.copy_\<close> applies it: the source's shape is aligned with the
  destination's from the right (padded with leading ones), and each source dimension must
  equal the destination's or be one.
\<close>

definition pad_shape :: "nat list \<Rightarrow> nat \<Rightarrow> nat list" where
  "pad_shape s n = replicate (n - length s) 1 @ s"

definition broadcastable :: "nat list \<Rightarrow> nat list \<Rightarrow> bool" where
  "broadcastable src dst \<longleftrightarrow>
     length src \<le> length dst \<and>
     list_all2 (\<lambda>s d. s = d \<or> s = 1) (pad_shape src (length dst)) dst"

fun expand :: "nat list \<Rightarrow> nat list \<Rightarrow> 'a list \<Rightarrow> 'a list" where
  "expand (s # ss) (d # ds) xs =
     (let chunk = prod_list ss;
          rows = concat (map (\<lambda>i. expand ss ds (take chunk (drop (i * chunk) xs))) [0..<s])
      in if s = d then rows else concat (replicate d rows))"
| "expand _ _ xs = xs"

text \<open>
  The elements a source tensor has once broadcast to the shape \<open>dst\<close>: its own when
  the shapes are equal, repeated along the dimensions of size one otherwise.
\<close>

definition broadcast_elems :: "nat list \<Rightarrow> 'a tensor \<Rightarrow> 'a list" where
  "broadcast_elems dst src =
     (if shape src = dst then elems src
      else expand (pad_shape (shape src) (length dst)) dst (elems src))"

text \<open>
  \<open>Tensor.copy_\<close> converts each element of the source to the element type of the
  destination. The conversion between two different element types is the library's
  (rounding to the nearest value of the narrower type, and so on): \<open>convert\<close>, a parameter
  of the model. Between equal element types nothing is converted.
\<close>

definition cast_elem :: "(dtype \<Rightarrow> dtype \<Rightarrow> 'a \<Rightarrow> 'a) \<Rightarrow> dtype \<Rightarrow> dtype \<Rightarrow> 'a \<Rightarrow> 'a" where
  "cast_elem convert src_type dst_type x =
     (if src_type = dst_type then x else convert src_type dst_type x)"

text \<open>
  The elements that \<open>self.copy_(src)\<close> writes into \<open>self\<close>: those of \<open>src\<close>, broadcast to the
  shape of \<open>self\<close> and converted to the element type of \<open>self\<close>.
\<close>

definition copied_elems :: "(dtype \<Rightarrow> dtype \<Rightarrow> 'a \<Rightarrow> 'a) \<Rightarrow> 'a tensor \<Rightarrow> 'a tensor \<Rightarrow> 'a list" where
  "copied_elems convert self src =
     map (cast_elem convert (dtype src) (dtype self)) (broadcast_elems (shape self) src)"

text \<open>
  \<open>tensor_copy convert self src\<close> is \<open>self.copy_(src)\<close>: the elements of \<open>src\<close>, broadcast
  and converted, overwrite those of \<open>self\<close>, whose shape and element type never change. A
  source that cannot be broadcast to the shape of \<open>self\<close> raises. Devices are not modelled.
\<close>

definition tensor_copy ::
  "(dtype \<Rightarrow> dtype \<Rightarrow> 'a \<Rightarrow> 'a) \<Rightarrow> 'a tensor \<Rightarrow> 'a tensor \<Rightarrow> error + 'a tensor"
where
  "tensor_copy convert self src =
     (if broadcastable (shape src) (shape self)
      then Inr (self\<lparr>elems := copied_elems convert self src\<rparr>)
      else Inl (RuntimeError ''copy_: sizes do not match''))"

section \<open>The weight importer\<close>

definition model_urls :: "(string \<times> string) list" where
  "model_urls =
     [(''resnet18'', ''https://download.pytorch.org/models/resnet18-5c106cde.pth''),
      (''resnet34'', ''https://download.pytorch.org/models/resnet34-333f7ec4.pth''),
      (''resnet50'', ''https://download.pytorch.org/models/resnet50-19c8e357.pth''),
      (''resnet101'', ''https://download.pytorch.org/models/resnet101-5d3b4d8f.pth''),
      (''resnet152'', ''https://download.pytorch.org/models/resnet152-b121ed2d.pth'')]"

text \<open>
  The network enters \<open>load_my_state_dict\<close> only through \<open>net.state_dict()\<close>, a dictionary
  from parameter names to tensors that share their storage with the network's own: a
  write through the dictionary is a write into the network. The network is therefore
  represented here by that dictionary, a map from names to tensors.

  The loop over \<open>param.items()\<close>. An exception leaves the writes made before it in place,
  so the function returns the dictionary as it stands together with the error, if any.
\<close>

fun copy_entries ::
  "(dtype \<Rightarrow> dtype \<Rightarrow> 'a \<Rightarrow> 'a) \<Rightarrow> (string \<times> 'a tensor) list \<Rightarrow> (string \<rightharpoonup> 'a tensor)
     \<Rightarrow> (string \<rightharpoonup> 'a tensor) \<times> error option"
where
  "copy_entries convert [] model_dict = (model_dict, None)"
| "copy_entries convert ((name, param) # rest) model_dict =
     (case model_dict name of
        None \<Rightarrow> copy_entries convert rest model_dict
      | Some p \<Rightarrow>
          (case tensor_copy convert p param of
             Inl e \<Rightarrow> (model_dict, Some e)
           | Inr p' \<Rightarrow> copy_entries convert rest (model_dict(name \<mapsto> p'))))"

text \<open>
  \<open>load_url\<close> is \<open>model_zoo.load_url\<close>, the download and parsing of a weight file: a
  parameter of the model, which returns the file's entries in order or fails.
\<close>

definition load_my_state_dict ::
  "(dtype \<Rightarrow> dtype \<Rightarrow> 'a \<Rightarrow> 'a) \<Rightarrow> (string \<Rightarrow> error + (string \<times> 'a tensor) list)
     \<Rightarrow> (string \<rightharpoonup> 'a tensor) \<Rightarrow> string \<Rightarrow> (string \<rightharpoonup> 'a tensor) \<times> error option"
where
  "load_my_state_dict convert load_url net parameter_url =
     (case map_of model_urls parameter_url of
        None \<Rightarrow> (net, Some (KeyError parameter_url))
      | Some url \<Rightarrow>
          (case load_url url of
             Inl e \<Rightarrow> (net, Some e)
           | Inr param \<Rightarrow> copy_entries convert param net))"

section \<open>Layers\<close>

text \<open>
  How a parameter tensor was last filled: by the library's own default, by a constant
  (\<open>fill_\<close>, \<open>zero_\<close>), or by \<open>normal_(mean, std)\<close>, which draws every element independently
  from the normal distribution of that mean and standard deviation.
\<close>

datatype filling = Default | Constant real | Normal real real

record parameter =
  p_shape :: "nat list"
  p_values :: filling

record conv2d =
  in_channels :: nat
  out_channels :: nat
  kernel_size :: "nat \<times> nat"
  stride :: nat
  padding :: nat
  dilation :: nat
  weight :: parameter

record batchnorm2d =
  num_features :: nat
  bn_weight :: parameter
  bn_bias :: parameter

text \<open>\<open>nn.Conv2d(cin, cout, kernel_size=k, stride=s, padding=p, dilation=d, bias=False)\<close>\<close>

definition Conv2d :: "nat \<Rightarrow> nat \<Rightarrow> nat \<Rightarrow> nat \<Rightarrow> nat \<Rightarrow> nat \<Rightarrow> conv2d" where
  "Conv2d cin cout k s p d =
     \<lparr>in_channels = cin, out_channels = cout, kernel_size = (k, k), stride = s,
      padding = p, dilation = d,
      weight = \<lparr>p_shape = [cout, cin, k, k], p_values = Default\<rparr>\<rparr>"

definition BatchNorm2d :: "nat \<Rightarrow> batchnorm2d" where
  "BatchNorm2d n =
     \<lparr>num_features = n,
      bn_weight = \<lparr>p_shape = [n], p_values = Default\<rparr>,
      bn_bias = \<lparr>p_shape = [n], p_values = Default\<rparr>\<rparr>"

definition conv3x3 :: "nat \<Rightarrow> nat \<Rightarrow> nat \<Rightarrow> conv2d" where
  "conv3x3 in_planes out_planes strd = Conv2d in_planes out_planes 3 strd 1 1"

text \<open>The members of the \<open>nn.Sequential\<close> containers of layers that the code builds.\<close>

datatype layer = LConv conv2d | LBN batchnorm2d

fun param_count :: "layer \<Rightarrow> nat" where
  "param_count (LConv c) = prod_list (p_shape (weight c))"
| "param_count (LBN b) = prod_list (p_shape (bn_weight b)) + prod_list (p_shape (bn_bias b))"

definition seq_param_count :: "layer list \<Rightarrow> nat" where
  "seq_param_count ls = sum_list (map param_count ls)"

section \<open>Blocks\<close>

text \<open>The class passed as \<open>block\<close>, and its class attribute \<open>expansion\<close>.\<close>

datatype block_class = BasicBlock_class | Bottleneck_class

fun expansion :: "block_class \<Rightarrow> nat" where
  "expansion BasicBlock_class = 1"
| "expansion Bottleneck_class = 4"

text \<open>
  An instance of either class: its layers in the order of \<open>__init__\<close>, then \<open>downsample\<close>
  (\<open>None\<close> or a container of layers) and \<open>stride\<close>.
\<close>

datatype res_block =
    BasicBlock_obj conv2d batchnorm2d conv2d batchnorm2d "layer list option" nat
  | Bottleneck_obj conv2d batchnorm2d conv2d batchnorm2d conv2d batchnorm2d
      "layer list option" nat

definition BasicBlock :: "nat \<Rightarrow> nat \<Rightarrow> nat \<Rightarrow> layer list option \<Rightarrow> res_block" where
  "BasicBlock inplanes planes strd downsample =
     BasicBlock_obj (conv3x3 inplanes planes strd) (BatchNorm2d planes)
       (conv3x3 planes planes 1) (BatchNorm2d planes) downsample strd"

definition Bottleneck :: "nat \<Rightarrow> nat \<Rightarrow> nat \<Rightarrow> layer list option \<Rightarrow> res_block" where
  "Bottleneck inplanes planes strd downsample =
     Bottleneck_obj (Conv2d inplanes planes 1 1 0 1) (BatchNorm2d planes)
       (Conv2d planes planes 3 strd 1 1) (BatchNorm2d planes)
       (Conv2d planes (planes * 4) 1 1 0 1) (BatchNorm2d (planes * 4)) downsample strd"

fun new_block :: "block_class \<Rightarrow> nat \<Rightarrow> nat \<Rightarrow> nat \<Rightarrow> layer list option \<Rightarrow> res_block" where
  "new_block BasicBlock_class = BasicBlock"
| "new_block Bottleneck_class = Bottleneck"

fun block_downsample :: "res_block \<Rightarrow> layer list option" where
  "block_downsample (BasicBlock_obj c1 b1 c2 b2 ds s) = ds"
| "block_downsample (Bottleneck_obj c1 b1 c2 b2 c3 b3 ds s) = ds"

fun block_stride :: "res_block \<Rightarrow> nat" where
  "block_stride (BasicBlock_obj c1 b1 c2 b2 ds s) = s"
| "block_stride (Bottleneck_obj c1 b1 c2 b2 c3 b3 ds s) = s"

text \<open>
  The channels a block expects (those of its first convolution) and the channels it
  returns (those of its last normalisation, which follows its last convolution).
\<close>

fun block_in_channels :: "res_block \<Rightarrow> nat" where
  "block_in_channels (BasicBlock_obj c1 b1 c2 b2 ds s) = in_channels c1"
| "block_in_channels (Bottleneck_obj c1 b1 c2 b2 c3 b3 ds s) = in_channels c1"

fun block_out_channels :: "res_block \<Rightarrow> nat" where
  "block_out_channels (BasicBlock_obj c1 b1 c2 b2 ds s) = out_channels c2"
| "block_out_channels (Bottleneck_obj c1 b1 c2 b2 c3 b3 ds s) = out_channels c3"

text \<open>
  \<open>DetNetBottleneck\<close>: three convolutions with their normalisations, and \<open>downsample\<close>,
  which is always a container of layers, empty or not.
\<close>

datatype detnet_block =
  DetNetBottleneck_obj conv2d batchnorm2d conv2d batchnorm2d conv2d batchnorm2d "layer list"

definition detnet_expansion :: nat where
  "detnet_expansion = 1"

definition DetNetBottleneck :: "nat \<Rightarrow> nat \<Rightarrow> nat \<Rightarrow> string \<Rightarrow> detnet_block" where
  "DetNetBottleneck in_planes planes strd block_type =
     DetNetBottleneck_obj
       (Conv2d in_planes planes 1 1 0 1) (BatchNorm2d planes)
       (Conv2d planes planes 3 strd 2 2) (BatchNorm2d planes)
       (Conv2d planes (detnet_expansion * planes) 1 1 0 1)
       (BatchNorm2d (detnet_expansion * planes))
       (if strd \<noteq> 1 \<or> in_planes \<noteq> detnet_expansion * planes \<or> block_type = ''B''
        then [LConv (Conv2d in_planes (detnet_expansion * planes) 1 strd 0 1),
              LBN (BatchNorm2d (detnet_expansion * planes))]
        else [])"

fun detnet_downsample :: "detnet_block \<Rightarrow> layer list" where
  "detnet_downsample (DetNetBottleneck_obj c1 b1 c2 b2 c3 b3 ds) = ds"

fun detnet_in_channels :: "detnet_block \<Rightarrow> nat" where
  "detnet_in_channels (DetNetBottleneck_obj c1 b1 c2 b2 c3 b3 ds) = in_channels c1"

section \<open>The network\<close>

record resnet =
  inplanes :: nat
  conv1 :: conv2d
  bn1 :: batchnorm2d
  maxpool :: "nat \<times> nat \<times> nat"
  layer1 :: "res_block list"
  layer2 :: "res_block list"
  layer3 :: "res_block list"
  layer4 :: "res_block list"
  layer5 :: "detnet_block list"
  avgpool :: nat
  conv_end :: conv2d
  bn_end :: batchnorm2d

text \<open>
  \<open>_make_layer\<close> reads and writes \<open>self.inplanes\<close>: it takes the current value and returns
  the new one beside the blocks. \<open>range(1, blocks)\<close> runs \<open>blocks - 1\<close> times, and not at
  all when \<open>blocks\<close> is 0 or 1. Block counts, channel numbers and strides are natural
  numbers: the integers of the code that are not negative.
\<close>

definition make_layer ::
  "block_class \<Rightarrow> nat \<Rightarrow> nat \<Rightarrow> nat \<Rightarrow> nat \<Rightarrow> res_block list \<times> nat"
where
  "make_layer block planes blocks strd inplanes0 =
     (let downsample =
            (if strd \<noteq> 1 \<or> inplanes0 \<noteq> planes * expansion block
             then Some [LConv (Conv2d inplanes0 (planes * expansion block) 1 strd 0 1),
                        LBN (BatchNorm2d (planes * expansion block))]
             else None);
          first = new_block block inplanes0 planes strd downsample;
          inplanes1 = planes * expansion block
      in (first # replicate (blocks - 1) (new_block block inplanes1 planes 1 None),
          inplanes1))"

definition make_detnet_layer :: "nat \<Rightarrow> detnet_block list" where
  "make_detnet_layer in_channels0 =
     [DetNetBottleneck in_channels0 256 1 ''B'',
      DetNetBottleneck 256 256 1 ''A'',
      DetNetBottleneck 256 256 1 ''A'']"

subsection \<open>The initialiser loop\<close>

definition fan_out :: "conv2d \<Rightarrow> nat" where
  "fan_out m = fst (kernel_size m) * snd (kernel_size m) * out_channels m"

definition init_conv :: "conv2d \<Rightarrow> conv2d" where
  "init_conv m = m\<lparr>weight := (weight m)\<lparr>p_values := Normal 0 (sqrt (2 / real (fan_out m)))\<rparr>\<rparr>"

definition init_bn :: "batchnorm2d \<Rightarrow> batchnorm2d" where
  "init_bn m = m\<lparr>bn_weight := (bn_weight m)\<lparr>p_values := Constant 1\<rparr>,
                 bn_bias := (bn_bias m)\<lparr>p_values := Constant 0\<rparr>\<rparr>"

fun init_layer :: "layer \<Rightarrow> layer" where
  "init_layer (LConv c) = LConv (init_conv c)"
| "init_layer (LBN b) = LBN (init_bn b)"

fun init_block :: "res_block \<Rightarrow> res_block" where
  "init_block (BasicBlock_obj c1 b1 c2 b2 ds s) =
     BasicBlock_obj (init_conv c1) (init_bn b1) (init_conv c2) (init_bn b2)
       (map_option (map init_layer) ds) s"
| "init_block (Bottleneck_obj c1 b1 c2 b2 c3 b3 ds s) =
     Bottleneck_obj (init_conv c1) (init_bn b1) (init_conv c2) (init_bn b2)
       (init_conv c3) (init_bn b3) (map_option (map init_layer) ds) s"

fun init_detnet :: "detnet_block \<Rightarrow> detnet_block" where
  "init_detnet (DetNetBottleneck_obj c1 b1 c2 b2 c3 b3 ds) =
     DetNetBottleneck_obj (init_conv c1) (init_bn b1) (init_conv c2) (init_bn b2)
       (init_conv c3) (init_bn b3) (map init_layer ds)"

text \<open>
  \<open>self.modules()\<close>, without the modules that are neither a convolution nor a
  normalisation (the containers, the activation and the poolings), which the loop passes
  over: every convolution and normalisation of the network, in the order of traversal.
\<close>

fun block_modules :: "res_block \<Rightarrow> layer list" where
  "block_modules (BasicBlock_obj c1 b1 c2 b2 ds s) =
     [LConv c1, LBN b1, LConv c2, LBN b2] @ (case ds of None \<Rightarrow> [] | Some d \<Rightarrow> d)"
| "block_modules (Bottleneck_obj c1 b1 c2 b2 c3 b3 ds s) =
     [LConv c1, LBN b1, LConv c2, LBN b2, LConv c3, LBN b3]
       @ (case ds of None \<Rightarrow> [] | Some d \<Rightarrow> d)"

fun detnet_modules :: "detnet_block \<Rightarrow> layer list" where
  "detnet_modules (DetNetBottleneck_obj c1 b1 c2 b2 c3 b3 ds) =
     [LConv c1, LBN b1, LConv c2, LBN b2, LConv c3, LBN b3] @ ds"

definition modules :: "resnet \<Rightarrow> layer list" where
  "modules net =
     [LConv (conv1 net), LBN (bn1 net)]
       @ concat (map block_modules (layer1 net))
       @ concat (map block_modules (layer2 net))
       @ concat (map block_modules (layer3 net))
       @ concat (map block_modules (layer4 net))
       @ concat (map detnet_modules (layer5 net))
       @ [LConv (conv_end net), LBN (bn_end net)]"

fun zero_fan_out :: "layer \<Rightarrow> bool" where
  "zero_fan_out (LConv c) = (fan_out c = 0)"
| "zero_fan_out (LBN b) = False"

text \<open>
  The loop at the end of \<open>__init__\<close>. \<open>2. / n\<close> raises when \<open>n\<close> is 0; as a failed
  constructor returns no network, the loop is modelled by that test followed by the
  update of every layer.
\<close>

definition init_weights :: "resnet \<Rightarrow> resnet" where
  "init_weights net =
     net\<lparr>conv1 := init_conv (conv1 net), bn1 := init_bn (bn1 net),
         layer1 := map init_block (layer1 net),
         layer2 := map init_block (layer2 net),
         layer3 := map init_block (layer3 net),
         layer4 := map init_block (layer4 net),
         layer5 := map init_detnet (layer5 net),
         conv_end := init_conv (conv_end net),
         bn_end := init_bn (bn_end net)\<rparr>"

definition init_modules :: "resnet \<Rightarrow> error + resnet" where
  "init_modules net =
     (if list_ex zero_fan_out (modules net) then Inl ZeroDivisionError
      else Inr (init_weights net))"

subsection \<open>The constructor and the five configurations\<close>

text \<open>The layers of \<open>__init__\<close>, before the initialiser loop.\<close>

definition ResNet_layers :: "block_class \<Rightarrow> nat list \<Rightarrow> resnet" where
  "ResNet_layers block layers =
     (let (l1, ip1) = make_layer block 64 (layers ! 0) 1 64;
          (l2, ip2) = make_layer block 128 (layers ! 1) 2 ip1;
          (l3, ip3) = make_layer block 256 (layers ! 2) 2 ip2;
          (l4, ip4) = make_layer block 512 (layers ! 3) 2 ip3
      in \<lparr>inplanes = ip4,
          conv1 = Conv2d 3 64 7 2 3 1,
          bn1 = BatchNorm2d 64,
          maxpool = (3, 2, 1),
          layer1 = l1, layer2 = l2, layer3 = l3, layer4 = l4,
          layer5 = make_detnet_layer (layers ! 4),
          avgpool = 2,
          conv_end = Conv2d 256 10 3 1 1 1,
          bn_end = BatchNorm2d 10\<rparr>)"

text \<open>
  \<open>ResNet(block, layers)\<close>. Reading \<open>layers[0]\<close> to \<open>layers[4]\<close> raises on a list of fewer
  than five elements.
\<close>

definition ResNet :: "block_class \<Rightarrow> nat list \<Rightarrow> error + resnet" where
  "ResNet block layers =
     (if length layers < 5 then Inl IndexError
      else init_modules (ResNet_layers block layers))"

text \<open>
  The factory functions with \<open>pretrained=False\<close>; \<open>use_gpu\<close> moves the network to another
  device and changes nothing that is modelled here.
\<close>

definition resnet18 :: "error + resnet" where
  "resnet18 = ResNet BasicBlock_class [2, 2, 2, 2, 512]"

definition resnet34 :: "error + resnet" where
  "resnet34 = ResNet BasicBlock_class [3, 4, 6, 3, 512]"

definition resnet50 :: "error + resnet" where
  "resnet50 = ResNet Bottleneck_class [3, 4, 6, 3, 2048]"

definition resnet101 :: "error + resnet" where
  "resnet101 = ResNet Bottleneck_class [3, 4, 23, 3, 2048]"

definition resnet152 :: "error + resnet" where
  "resnet152 = ResNet Bottleneck_class [3, 8, 36, 3, 2048]"

datatype depth = D18 | D34 | D50 | D101 | D152

fun configuration :: "depth \<Rightarrow> error + resnet" where
  "configuration D18 = resnet18"
| "configuration D34 = resnet34"
| "configuration D50 = resnet50"
| "configuration D101 = resnet101"
| "configuration D152 = resnet152"

section \<open>The forward pass\<close>

text \<open>
  The forward pass is written over the tensor operations it calls, so that it can be read
  at any level of detail: \<open>'t\<close> is what stands for a tensor. An operation that can reject
  its argument returns an error. \<open>add_op out residual\<close> is the in-place \<open>out += residual\<close>.
  Only the tensor that a layer returns is modelled; the running statistics that a
  normalisation layer updates in training mode are not, nor is its refusal, in training
  mode, of an input with a single value per channel.
\<close>

record 't ops =
  conv2d_op :: "conv2d \<Rightarrow> 't \<Rightarrow> error + 't"
  batch_norm_op :: "batchnorm2d \<Rightarrow> 't \<Rightarrow> error + 't"
  relu_op :: "'t \<Rightarrow> 't"
  max_pool2d_op :: "nat \<times> nat \<times> nat \<Rightarrow> 't \<Rightarrow> error + 't"
  add_op :: "'t \<Rightarrow> 't \<Rightarrow> error + 't"
  sigmoid_op :: "'t \<Rightarrow> 't"
  permute_op :: "nat list \<Rightarrow> 't \<Rightarrow> error + 't"

fun apply_layer :: "'t ops \<Rightarrow> layer \<Rightarrow> 't \<Rightarrow> error + 't" where
  "apply_layer ops (LConv c) x = conv2d_op ops c x"
| "apply_layer ops (LBN b) x = batch_norm_op ops b x"

text \<open>\<open>nn.Sequential.forward\<close>: each member in turn; the empty container returns its input.\<close>

fun sequential :: "('t \<Rightarrow> error + 't) list \<Rightarrow> 't \<Rightarrow> error + 't" where
  "sequential [] x = Inr x"
| "sequential (f # fs) x = bindE (f x) (sequential fs)"

fun block_forward :: "'t ops \<Rightarrow> res_block \<Rightarrow> 't \<Rightarrow> error + 't" where
  "block_forward ops (BasicBlock_obj c1 b1 c2 b2 ds s) x =
     bindE (conv2d_op ops c1 x) (\<lambda>out.
     bindE (batch_norm_op ops b1 out) (\<lambda>out.
     bindE (conv2d_op ops c2 (relu_op ops out)) (\<lambda>out.
     bindE (batch_norm_op ops b2 out) (\<lambda>out.
     bindE (case ds of None \<Rightarrow> Inr x
            | Some d \<Rightarrow> sequential (map (apply_layer ops) d) x) (\<lambda>residual.
     bindE (add_op ops out residual) (\<lambda>out.
     Inr (relu_op ops out)))))))"
| "block_forward ops (Bottleneck_obj c1 b1 c2 b2 c3 b3 ds s) x =
     bindE (conv2d_op ops c1 x) (\<lambda>out.
     bindE (batch_norm_op ops b1 out) (\<lambda>out.
     bindE (conv2d_op ops c2 (relu_op ops out)) (\<lambda>out.
     bindE (batch_norm_op ops b2 out) (\<lambda>out.
     bindE (conv2d_op ops c3 (relu_op ops out)) (\<lambda>out.
     bindE (batch_norm_op ops b3 out) (\<lambda>out.
     bindE (case ds of None \<Rightarrow> Inr x
            | Some d \<Rightarrow> sequential (map (apply_layer ops) d) x) (\<lambda>residual.
     bindE (add_op ops out residual) (\<lambda>out.
     Inr (relu_op ops out)))))))))"

text \<open>The three-convolution branch of a \<open>DetNetBottleneck\<close>, up to \<open>bn3\<close>.\<close>

fun detnet_branch :: "'t ops \<Rightarrow> detnet_block \<Rightarrow> 't \<Rightarrow> error + 't" where
  "detnet_branch ops (DetNetBottleneck_obj c1 b1 c2 b2 c3 b3 ds) x =
     bindE (conv2d_op ops c1 x) (\<lambda>out.
     bindE (batch_norm_op ops b1 out) (\<lambda>out.
     bindE (conv2d_op ops c2 (relu_op ops out)) (\<lambda>out.
     bindE (batch_norm_op ops b2 out) (\<lambda>out.
     bindE (conv2d_op ops c3 (relu_op ops out)) (\<lambda>out.
     batch_norm_op ops b3 out)))))"

definition detnet_forward :: "'t ops \<Rightarrow> detnet_block \<Rightarrow> 't \<Rightarrow> error + 't" where
  "detnet_forward ops b x =
     bindE (detnet_branch ops b x) (\<lambda>out.
     bindE (sequential (map (apply_layer ops) (detnet_downsample b)) x) (\<lambda>residual.
     bindE (add_op ops out residual) (\<lambda>out.
     Inr (relu_op ops out))))"

definition forward :: "'t ops \<Rightarrow> resnet \<Rightarrow> 't \<Rightarrow> error + 't" where
  "forward ops net x =
     bindE (conv2d_op ops (conv1 net) x) (\<lambda>x.
     bindE (batch_norm_op ops (bn1 net) x) (\<lambda>x.
     bindE (max_pool2d_op ops (maxpool net) (relu_op ops x)) (\<lambda>x.
     bindE (sequential (map (block_forward ops) (layer1 net)) x) (\<lambda>x.
     bindE (sequential (map (block_forward ops) (layer2 net)) x) (\<lambda>x.
     bindE (sequential (map (block_forward ops) (layer3 net)) x) (\<lambda>x.
     bindE (sequential (map (block_forward ops) (layer4 net)) x) (\<lambda>x.
     bindE (sequential (map (detnet_forward ops) (layer5 net)) x) (\<lambda>x.
     bindE (conv2d_op ops (conv_end net) x) (\<lambda>x.
     bindE (batch_norm_op ops (bn_end net) x) (\<lambda>x.
     permute_op ops [0, 2, 3, 1] (sigmoid_op ops x)))))))))))"

subsection \<open>The operations on shapes\<close>

text \<open>
  The size of one spatial dimension after a window of size \<open>k\<close>, dilation \<open>d\<close>, stride \<open>s\<close>
  and padding \<open>p\<close>: \<open>floor((h + 2p - d(k - 1) - 1) / s) + 1\<close>, and an error when the padded
  input is smaller than the window.
\<close>

definition window_out :: "nat \<Rightarrow> nat \<Rightarrow> nat \<Rightarrow> nat \<Rightarrow> nat \<Rightarrow> error + nat" where
  "window_out h k s p d =
     (if s = 0 then Inl (RuntimeError ''stride must be positive'')
      else if h + 2 * p < d * (k - 1) + 1
      then Inl (RuntimeError ''output size is too small'')
      else Inr ((h + 2 * p - (d * (k - 1) + 1)) div s + 1))"

fun shape_conv2d :: "conv2d \<Rightarrow> nat list \<Rightarrow> error + nat list" where
  "shape_conv2d c [n, ch, h, w] =
     (if ch \<noteq> in_channels c then Inl (RuntimeError ''input channels do not match the weight'')
      else
        bindE (window_out h (fst (kernel_size c)) (stride c) (padding c) (dilation c)) (\<lambda>h'.
        bindE (window_out w (snd (kernel_size c)) (stride c) (padding c) (dilation c)) (\<lambda>w'.
        Inr [n, out_channels c, h', w'])))"
| "shape_conv2d c _ = Inl (RuntimeError ''expected a 4-dimensional input'')"

fun shape_batch_norm :: "batchnorm2d \<Rightarrow> nat list \<Rightarrow> error + nat list" where
  "shape_batch_norm b [n, ch, h, w] =
     (if ch \<noteq> num_features b then Inl (RuntimeError ''channels do not match num_features'')
      else Inr [n, ch, h, w])"
| "shape_batch_norm b _ = Inl (RuntimeError ''expected a 4-dimensional input'')"

fun shape_max_pool2d :: "nat \<times> nat \<times> nat \<Rightarrow> nat list \<Rightarrow> error + nat list" where
  "shape_max_pool2d (k, s, p) [n, ch, h, w] =
     bindE (window_out h k s p 1) (\<lambda>h'.
     bindE (window_out w k s p 1) (\<lambda>w'.
     Inr [n, ch, h', w']))"
| "shape_max_pool2d _ _ = Inl (RuntimeError ''expected a 4-dimensional input'')"

definition shape_add :: "nat list \<Rightarrow> nat list \<Rightarrow> error + nat list" where
  "shape_add out residual =
     (if broadcastable residual out then Inr out
      else Inl (RuntimeError ''the sizes of the tensors do not match''))"

definition shape_permute :: "nat list \<Rightarrow> nat list \<Rightarrow> error + nat list" where
  "shape_permute dims x =
     (if length dims = length x \<and> distinct dims \<and> list_all (\<lambda>i. i < length x) dims
      then Inr (map (\<lambda>i. x ! i) dims)
      else Inl (RuntimeError ''permute: dimensions do not match''))"

definition shape_ops :: "(nat list) ops" where
  "shape_ops =
     \<lparr>conv2d_op = shape_conv2d, batch_norm_op = shape_batch_norm, relu_op = (\<lambda>x. x),
      max_pool2d_op = shape_max_pool2d, add_op = shape_add, sigmoid_op = (\<lambda>x. x),
      permute_op = shape_permute\<rparr>"

text \<open>Building a configuration and running it on an input of a given shape.\<close>

definition output_shape :: "depth \<Rightarrow> nat list \<Rightarrow> error + nat list" where
  "output_shape d x = bindE (configuration d) (\<lambda>net. forward shape_ops net x)"

section \<open>Notions for the proofs about the importer\<close>

text \<open>
  \<open>fits src net\<close>: every entry of the source whose name is in the dictionary can be
  broadcast to the tensor of that name. \<open>final convert src net\<close>: the dictionary in which
  every tensor named by the source holds the elements copied from the source's last entry
  of that name.
\<close>

definition fits :: "(string \<times> 'a tensor) list \<Rightarrow> (string \<rightharpoonup> 'a tensor) \<Rightarrow> bool" where
  "fits src net \<longleftrightarrow>
     (\<forall>(name, t) \<in> set src. \<forall>p. net name = Some p \<longrightarrow> broadcastable (shape t) (shape p))"

definition final ::
  "(dtype \<Rightarrow> dtype \<Rightarrow> 'a \<Rightarrow> 'a) \<Rightarrow> (string \<times> 'a tensor) list \<Rightarrow> (string \<rightharpoonup> 'a tensor)
     \<Rightarrow> (string \<rightharpoonup> 'a tensor)"
where
  "final convert src net =
     (\<lambda>name. case net name of
          None \<Rightarrow> None
        | Some p \<Rightarrow>
            (case map_of (rev src) name of
               None \<Rightarrow> Some p
             | Some t \<Rightarrow> Some (p\<lparr>elems := copied_elems convert p t\<rparr>)))"

section \<open>The weight importer: proofs\<close>

lemma broadcastable_refl: "broadcastable s s"
  by (simp add: broadcastable_def pad_shape_def list_all2_same)

lemma copied_elems_update [simp]:
  "copied_elems convert (p\<lparr>elems := es\<rparr>) t = copied_elems convert p t"
  by (simp add: copied_elems_def)

lemma copied_elems_same:
  "shape t = shape p \<Longrightarrow>
     copied_elems convert p t = map (cast_elem convert (dtype t) (dtype p)) (elems t)"
  by (simp add: copied_elems_def broadcast_elems_def)

lemma cast_elem_same: "cast_elem convert d d = (\<lambda>x. x)"
  by (rule ext) (simp add: cast_elem_def)

lemma copied_elems_same_type:
  "shape t = shape p \<Longrightarrow> dtype t = dtype p \<Longrightarrow> copied_elems convert p t = elems t"
  by (simp add: copied_elems_def broadcast_elems_def cast_elem_same)

text \<open>
  The loop changes neither the names of the dictionary nor the shape or the element type
  of any tensor.
\<close>

lemma copy_entries_shape:
  "map_option shape (fst (copy_entries convert src net) name) = map_option shape (net name)"
proof (induction src arbitrary: net)
  case Nil
  then show ?case by simp
next
  case (Cons a src)
  obtain n t where a: "a = (n, t)" by (cases a)
  show ?case
  proof (cases "net n")
    case None
    then show ?thesis using Cons.IH[of net] a by simp
  next
    case (Some p)
    show ?thesis
    proof (cases "broadcastable (shape t) (shape p)")
      case True
      let ?net = "net(n \<mapsto> p\<lparr>elems := copied_elems convert p t\<rparr>)"
      have "copy_entries convert (a # src) net = copy_entries convert src ?net"
        using a Some True by (simp add: tensor_copy_def)
      moreover have "map_option shape (?net name) = map_option shape (net name)"
        using Some by simp
      ultimately show ?thesis using Cons.IH[of ?net] by (simp only:)
    next
      case False
      then show ?thesis using a Some by (simp add: tensor_copy_def)
    qed
  qed
qed

lemma fits_shape:
  assumes "\<And>name. map_option shape (net' name) = map_option shape (net name)"
  shows "fits src net' = fits src net"
proof -
  have "(\<forall>p. net' name = Some p \<longrightarrow> broadcastable s (shape p)) =
        (\<forall>p. net name = Some p \<longrightarrow> broadcastable s (shape p))" for name s
    using assms[of name] by (cases "net name"; cases "net' name"; simp)
  then show ?thesis unfolding fits_def by (simp add: split_def)
qed

lemma copy_entries_ok_iff:
  "snd (copy_entries convert src net) = None \<longleftrightarrow> fits src net"
proof (induction src arbitrary: net)
  case Nil
  then show ?case by (simp add: fits_def)
next
  case (Cons a src)
  obtain n t where a: "a = (n, t)" by (cases a)
  show ?case
  proof (cases "net n")
    case None
    then show ?thesis using Cons.IH[of net] a by (simp add: fits_def)
  next
    case (Some p)
    show ?thesis
    proof (cases "broadcastable (shape t) (shape p)")
      case True
      let ?net = "net(n \<mapsto> p\<lparr>elems := copied_elems convert p t\<rparr>)"
      have "fits src ?net = fits src net"
        by (rule fits_shape) (simp add: Some)
      then have 1: "snd (copy_entries convert src ?net) = None \<longleftrightarrow> fits src net"
        by (simp only: Cons.IH[of ?net])
      have 2: "copy_entries convert (a # src) net = copy_entries convert src ?net"
        using a Some True by (simp add: tensor_copy_def)
      have 3: "fits (a # src) net = fits src net"
        using a Some True by (auto simp: fits_def)
      show ?thesis unfolding 2 3 by (rule 1)
    next
      case False
      then show ?thesis using a Some by (auto simp: tensor_copy_def fits_def)
    qed
  qed
qed

lemma copy_entries_final:
  "fits src net \<Longrightarrow> copy_entries convert src net = (final convert src net, None)"
proof (induction src arbitrary: net)
  case Nil
  then show ?case by (auto simp: final_def split: option.splits)
next
  case (Cons a src)
  obtain n t where a: "a = (n, t)" by (cases a)
  have fs: "fits src net" using Cons.prems by (auto simp: fits_def)
  show ?case
  proof (cases "net n")
    case None
    have "final convert (a # src) net = final convert src net"
      using None a by (auto simp: final_def fun_eq_iff map_add_def split: option.splits)
    then show ?thesis using Cons.IH[OF fs] a None by simp
  next
    case (Some p)
    have bc: "broadcastable (shape t) (shape p)"
      using Cons.prems a Some by (auto simp: fits_def)
    let ?net = "net(n \<mapsto> p\<lparr>elems := copied_elems convert p t\<rparr>)"
    have "fits src ?net = fits src net"
      by (rule fits_shape) (simp add: Some)
    with fs have "fits src ?net" by (simp only:)
    then have "copy_entries convert src ?net = (final convert src ?net, None)"
      by (rule Cons.IH)
    moreover have "final convert src ?net = final convert (a # src) net"
      using Some a by (auto simp: final_def fun_eq_iff map_add_def split: option.splits)
    ultimately show ?thesis using a Some bc by (simp add: tensor_copy_def)
  qed
qed

lemma final_idem: "final convert src (final convert src net) = final convert src net"
  by (auto simp: final_def fun_eq_iff split: option.splits)

lemma final_shape:
  "map_option shape (final convert src net name) = map_option shape (net name)"
  by (simp add: final_def split: option.splits)

lemma copy_entries_twice:
  assumes "copy_entries convert src net = (net1, None)"
  shows "copy_entries convert src net1 = (net1, None)"
proof -
  have f: "fits src net" using copy_entries_ok_iff[of convert src net] assms by simp
  then have n1: "net1 = final convert src net"
    using copy_entries_final[of src net convert] assms by simp
  have "fits src net1 = fits src net"
    by (rule fits_shape) (use copy_entries_shape[of convert src net] assms in simp)
  with f have "fits src net1" by (simp only:)
  then have "copy_entries convert src net1 = (final convert src net1, None)"
    by (rule copy_entries_final)
  also have "final convert src net1 = net1" unfolding n1 by (rule final_idem)
  finally show ?thesis .
qed

text \<open>The loop over a list in two parts: the second part runs if the first raised nothing.\<close>

lemma copy_entries_append:
  "copy_entries convert (pre @ rest) net =
     (case copy_entries convert pre net of
        (net', None) \<Rightarrow> copy_entries convert rest net'
      | (net', Some e) \<Rightarrow> (net', Some e))"
proof (induction pre arbitrary: net)
  case Nil
  show ?case by simp
next
  case (Cons a pre)
  obtain n t where a: "a = (n, t)" by (cases a)
  show ?case
  proof (cases "net n")
    case None
    then show ?thesis using Cons.IH[of net] a by simp
  next
    case (Some p)
    show ?thesis
    proof (cases "tensor_copy convert p t")
      case (Inl e)
      then show ?thesis using a Some by simp
    next
      case (Inr p')
      have e1: "copy_entries convert ((a # pre) @ rest) net =
                  copy_entries convert (pre @ rest) (net(n \<mapsto> p'))"
        using a Some Inr by simp
      have e2: "copy_entries convert (a # pre) net = copy_entries convert pre (net(n \<mapsto> p'))"
        using a Some Inr by simp
      show ?thesis unfolding e1 e2 by (rule Cons.IH)
    qed
  qed
qed

text \<open>
  The first entry that cannot be broadcast stops the loop: the entries before it have
  been copied, that entry and the entries after it have not.
\<close>

lemma copy_entries_error:
  assumes "fits pre net" and "net name = Some p" and "\<not> broadcastable (shape t) (shape p)"
  shows "copy_entries convert (pre @ (name, t) # post) net =
           (final convert pre net, Some (RuntimeError ''copy_: sizes do not match''))"
proof -
  have pre: "copy_entries convert pre net = (final convert pre net, None)"
    using assms(1) by (rule copy_entries_final)
  from final_shape[of convert pre net name] assms(2)
  obtain q where q: "final convert pre net name = Some q" and s: "shape q = shape p"
    by (cases "final convert pre net name") auto
  have "copy_entries convert ((name, t) # post) (final convert pre net) =
          (final convert pre net, Some (RuntimeError ''copy_: sizes do not match''))"
    using q s assms(3) by (simp add: tensor_copy_def)
  then show ?thesis by (simp add: copy_entries_append pre)
qed

lemma copy_entries_written:
  "fst (copy_entries convert src net) name = Some p' \<Longrightarrow>
     \<exists>p. net name = Some p \<and>
       (p' = p \<or> (\<exists>t. (name, t) \<in> set src \<and> broadcastable (shape t) (shape p) \<and>
                        p' = p\<lparr>elems := copied_elems convert p t\<rparr>))"
proof (induction src arbitrary: net)
  case Nil
  then show ?case by simp
next
  case (Cons a src)
  obtain n t where a: "a = (n, t)" by (cases a)
  show ?case
  proof (cases "net n")
    case None
    then have "fst (copy_entries convert src net) name = Some p'" using Cons.prems a by simp
    from Cons.IH[OF this] show ?thesis by auto
  next
    case (Some q)
    show ?thesis
    proof (cases "broadcastable (shape t) (shape q)")
      case False
      then show ?thesis using Cons.prems a Some by (simp add: tensor_copy_def)
    next
      case True
      let ?q = "q\<lparr>elems := copied_elems convert q t\<rparr>"
      have "fst (copy_entries convert src (net(n \<mapsto> ?q))) name = Some p'"
        using Cons.prems a Some True by (simp add: tensor_copy_def)
      from Cons.IH[OF this] obtain p where
        p: "(net(n \<mapsto> ?q)) name = Some p"
        and p': "p' = p \<or> (\<exists>t'. (name, t') \<in> set src \<and> broadcastable (shape t') (shape p) \<and>
                        p' = p\<lparr>elems := copied_elems convert p t'\<rparr>)"
        by auto
      show ?thesis
      proof (cases "name = n")
        case False
        then show ?thesis using p p' by auto
      next
        case eq: True
        then have "p = ?q" using p by simp
        then show ?thesis using p' eq Some True a by auto
      qed
    qed
  qed
qed

text \<open>
  C10. A source name outside the five registered ones raises \<open>KeyError\<close> at the lookup in
  \<open>model_urls\<close>: nothing is downloaded (the result is the same for every \<open>load_url\<close>) and
  the network's parameters are returned as they were.
\<close>

theorem load_my_state_dict_unknown_name:
  assumes "parameter_url \<notin> {''resnet18'', ''resnet34'', ''resnet50'', ''resnet101'', ''resnet152''}"
  shows "load_my_state_dict convert load_url net parameter_url
           = (net, Some (KeyError parameter_url))"
  using assms by (simp add: load_my_state_dict_def model_urls_def)

theorem load_my_state_dict_unknown_name_witness:
  "load_my_state_dict (\<lambda>a b x. x)
     (\<lambda>url. Inr [(''conv1.weight'', \<lparr>shape = [1], dtype = Float32, elems = [3::int]\<rparr>)])
     [''conv1.weight'' \<mapsto> \<lparr>shape = [1], dtype = Float32, elems = [0]\<rparr>] ''resnet20''
   = ([''conv1.weight'' \<mapsto> \<lparr>shape = [1], dtype = Float32, elems = [0]\<rparr>],
      Some (KeyError ''resnet20''))"
  using load_my_state_dict_unknown_name [of "''resnet20''"] by simp

text \<open>
  C3, as the code has it. For a registered source name whose file loads, the import
  raises no error exactly when every entry whose name is in the network can be broadcast
  to the network's tensor of that name: an entry whose name is not in the network is
  passed over and never an error. When no error is raised, every tensor of the network
  named by the source holds the elements copied (broadcast to its shape, converted to its
  element type) from the source's entry of that name, and every other tensor is as
  before; no name is added. When an entry whose name is in the network cannot be
  broadcast, the import raises the error of \<open>copy_\<close> at the first such entry: the network
  is then as the entries before that one have left it, and neither that entry nor any
  entry after it is written. In every case a tensor of the network is either as before or
  holds the elements copied from an entry of its name that could be broadcast. An entry
  of the same shape as the network's tensor can always be broadcast; its elements are
  converted one by one, and are copied unchanged when the element types are the same.
\<close>

theorem load_my_state_dict_entries:
  assumes "map_of model_urls parameter_url = Some url" and "load_url url = Inr src"
  shows
    "(snd (load_my_state_dict convert load_url net parameter_url) = None \<longleftrightarrow>
        (\<forall>(name, t) \<in> set src. \<forall>p. net name = Some p \<longrightarrow> broadcastable (shape t) (shape p)))
     \<and> (snd (load_my_state_dict convert load_url net parameter_url) = None \<longrightarrow>
          fst (load_my_state_dict convert load_url net parameter_url) =
            (\<lambda>name. case net name of
                 None \<Rightarrow> None
               | Some p \<Rightarrow>
                   (case map_of (rev src) name of
                      None \<Rightarrow> Some p
                    | Some t \<Rightarrow> Some (p\<lparr>elems := copied_elems convert p t\<rparr>))))
     \<and> (\<forall>pre name t post p.
          src = pre @ (name, t) # post
          \<and> (\<forall>(n, u) \<in> set pre. \<forall>q. net n = Some q \<longrightarrow> broadcastable (shape u) (shape q))
          \<and> net name = Some p \<and> \<not> broadcastable (shape t) (shape p) \<longrightarrow>
          load_my_state_dict convert load_url net parameter_url =
            ((\<lambda>n. case net n of
                 None \<Rightarrow> None
               | Some q \<Rightarrow>
                   (case map_of (rev pre) n of
                      None \<Rightarrow> Some q
                    | Some u \<Rightarrow> Some (q\<lparr>elems := copied_elems convert q u\<rparr>))),
             Some (RuntimeError ''copy_: sizes do not match'')))
     \<and> (\<forall>name p'. fst (load_my_state_dict convert load_url net parameter_url) name = Some p' \<longrightarrow>
          (\<exists>p. net name = Some p \<and>
             (p' = p \<or> (\<exists>t. (name, t) \<in> set src \<and> broadcastable (shape t) (shape p) \<and>
                           p' = p\<lparr>elems := copied_elems convert p t\<rparr>))))
     \<and> (\<forall>(name, t) \<in> set src. \<forall>p. net name = Some p \<and> shape t = shape p \<longrightarrow>
          broadcastable (shape t) (shape p)
          \<and> copied_elems convert p t = map (cast_elem convert (dtype t) (dtype p)) (elems t)
          \<and> (dtype t = dtype p \<longrightarrow> copied_elems convert p t = elems t))"
proof -
  have run: "load_my_state_dict convert load_url net parameter_url = copy_entries convert src net"
    using assms by (simp add: load_my_state_dict_def)
  have 1: "snd (copy_entries convert src net) = None \<longleftrightarrow>
        (\<forall>(name, t) \<in> set src. \<forall>p. net name = Some p \<longrightarrow> broadcastable (shape t) (shape p))"
    using copy_entries_ok_iff[of convert src net] by (simp only: fits_def)
  have 2: "snd (copy_entries convert src net) = None \<longrightarrow> fst (copy_entries convert src net) =
            (\<lambda>name. case net name of
                 None \<Rightarrow> None
               | Some p \<Rightarrow>
                   (case map_of (rev src) name of
                      None \<Rightarrow> Some p
                    | Some t \<Rightarrow> Some (p\<lparr>elems := copied_elems convert p t\<rparr>)))"
  proof
    assume "snd (copy_entries convert src net) = None"
    then have "fits src net" by (simp only: copy_entries_ok_iff)
    then have "copy_entries convert src net = (final convert src net, None)"
      by (rule copy_entries_final)
    then show "fst (copy_entries convert src net) =
            (\<lambda>name. case net name of
                 None \<Rightarrow> None
               | Some p \<Rightarrow>
                   (case map_of (rev src) name of
                      None \<Rightarrow> Some p
                    | Some t \<Rightarrow> Some (p\<lparr>elems := copied_elems convert p t\<rparr>)))"
      by (simp add: final_def)
  qed
  have 3: "\<forall>pre name t post p.
          src = pre @ (name, t) # post
          \<and> (\<forall>(n, u) \<in> set pre. \<forall>q. net n = Some q \<longrightarrow> broadcastable (shape u) (shape q))
          \<and> net name = Some p \<and> \<not> broadcastable (shape t) (shape p) \<longrightarrow>
          copy_entries convert src net =
            ((\<lambda>n. case net n of
                 None \<Rightarrow> None
               | Some q \<Rightarrow>
                   (case map_of (rev pre) n of
                      None \<Rightarrow> Some q
                    | Some u \<Rightarrow> Some (q\<lparr>elems := copied_elems convert q u\<rparr>))),
             Some (RuntimeError ''copy_: sizes do not match''))"
  proof (intro allI impI)
    fix pre name t post p
    assume h: "src = pre @ (name, t) # post
          \<and> (\<forall>(n, u) \<in> set pre. \<forall>q. net n = Some q \<longrightarrow> broadcastable (shape u) (shape q))
          \<and> net name = Some p \<and> \<not> broadcastable (shape t) (shape p)"
    from h have s: "src = pre @ (name, t) # post" by (elim conjE)
    from h have f: "fits pre net" unfolding fits_def by (elim conjE)
    from h have n: "net name = Some p" by (elim conjE)
    from h have b: "\<not> broadcastable (shape t) (shape p)" by (elim conjE)
    have "copy_entries convert (pre @ (name, t) # post) net =
            (final convert pre net, Some (RuntimeError ''copy_: sizes do not match''))"
      using f n b by (rule copy_entries_error)
    then show "copy_entries convert src net =
            ((\<lambda>n. case net n of
                 None \<Rightarrow> None
               | Some q \<Rightarrow>
                   (case map_of (rev pre) n of
                      None \<Rightarrow> Some q
                    | Some u \<Rightarrow> Some (q\<lparr>elems := copied_elems convert q u\<rparr>))),
             Some (RuntimeError ''copy_: sizes do not match''))"
      unfolding s final_def .
  qed
  have 4: "\<forall>name p'. fst (copy_entries convert src net) name = Some p' \<longrightarrow>
          (\<exists>p. net name = Some p \<and>
             (p' = p \<or> (\<exists>t. (name, t) \<in> set src \<and> broadcastable (shape t) (shape p) \<and>
                           p' = p\<lparr>elems := copied_elems convert p t\<rparr>)))"
    using copy_entries_written[of convert src net] by blast
  have 5: "\<forall>(name, t) \<in> set src. \<forall>p. net name = Some p \<and> shape t = shape p \<longrightarrow>
          broadcastable (shape t) (shape p)
          \<and> copied_elems convert p t = map (cast_elem convert (dtype t) (dtype p)) (elems t)
          \<and> (dtype t = dtype p \<longrightarrow> copied_elems convert p t = elems t)"
    by (auto simp: broadcastable_refl copied_elems_same cast_elem_same)
  show ?thesis unfolding run using 1 2 3 4 5 by (intro conjI)
qed

text \<open>
  The theorem at two imports. In the first, the file's entry \<open>conv1.weight\<close> has the
  shape of the network's tensor and another element type: its elements are written
  converted (the conversion is a stand-in for the library's rounding of 16777217 to a
  32-bit float), and the entry \<open>fc.bias\<close>, which the network does not have, is passed
  over. In the second, the entry \<open>b.weight\<close> cannot be broadcast: the import raises, the
  entry \<open>a.weight\<close> before it stays written, and \<open>b.weight\<close> and \<open>c.weight\<close> are as before.
\<close>

theorem load_my_state_dict_entries_witness:
  "snd (load_my_state_dict (\<lambda>a b x. if x = 16777217 then 16777216 else x)
          (\<lambda>url. Inr [(''conv1.weight'', \<lparr>shape = [2], dtype = Int64, elems = [16777217, 6::int]\<rparr>),
                      (''fc.bias'', \<lparr>shape = [3], dtype = Float32, elems = [1, 2, 3]\<rparr>)])
          [''conv1.weight'' \<mapsto> \<lparr>shape = [2], dtype = Float32, elems = [0, 0]\<rparr>] ''resnet18'') = None
   \<and> fst (load_my_state_dict (\<lambda>a b x. if x = 16777217 then 16777216 else x)
          (\<lambda>url. Inr [(''conv1.weight'', \<lparr>shape = [2], dtype = Int64, elems = [16777217, 6::int]\<rparr>),
                      (''fc.bias'', \<lparr>shape = [3], dtype = Float32, elems = [1, 2, 3]\<rparr>)])
          [''conv1.weight'' \<mapsto> \<lparr>shape = [2], dtype = Float32, elems = [0, 0]\<rparr>] ''resnet18'')
         ''conv1.weight''
       = Some \<lparr>shape = [2], dtype = Float32, elems = [16777216, 6]\<rparr>
   \<and> fst (load_my_state_dict (\<lambda>a b x. if x = 16777217 then 16777216 else x)
          (\<lambda>url. Inr [(''conv1.weight'', \<lparr>shape = [2], dtype = Int64, elems = [16777217, 6::int]\<rparr>),
                      (''fc.bias'', \<lparr>shape = [3], dtype = Float32, elems = [1, 2, 3]\<rparr>)])
          [''conv1.weight'' \<mapsto> \<lparr>shape = [2], dtype = Float32, elems = [0, 0]\<rparr>] ''resnet18'')
         ''fc.bias''
       = None
   \<and> snd (load_my_state_dict (\<lambda>a b x. x)
          (\<lambda>url. Inr [(''a.weight'', \<lparr>shape = [2], dtype = Float32, elems = [5, 6::int]\<rparr>),
                      (''b.weight'', \<lparr>shape = [2], dtype = Float32, elems = [1, 2]\<rparr>),
                      (''c.weight'', \<lparr>shape = [1], dtype = Float32, elems = [9]\<rparr>)])
          [''a.weight'' \<mapsto> \<lparr>shape = [2], dtype = Float32, elems = [0, 0]\<rparr>,
           ''b.weight'' \<mapsto> \<lparr>shape = [3], dtype = Float32, elems = [0, 0, 0]\<rparr>,
           ''c.weight'' \<mapsto> \<lparr>shape = [1], dtype = Float32, elems = [0]\<rparr>] ''resnet18'')
       = Some (RuntimeError ''copy_: sizes do not match'')
   \<and> fst (load_my_state_dict (\<lambda>a b x. x)
          (\<lambda>url. Inr [(''a.weight'', \<lparr>shape = [2], dtype = Float32, elems = [5, 6::int]\<rparr>),
                      (''b.weight'', \<lparr>shape = [2], dtype = Float32, elems = [1, 2]\<rparr>),
                      (''c.weight'', \<lparr>shape = [1], dtype = Float32, elems = [9]\<rparr>)])
          [''a.weight'' \<mapsto> \<lparr>shape = [2], dtype = Float32, elems = [0, 0]\<rparr>,
           ''b.weight'' \<mapsto> \<lparr>shape = [3], dtype = Float32, elems = [0, 0, 0]\<rparr>,
           ''c.weight'' \<mapsto> \<lparr>shape = [1], dtype = Float32, elems = [0]\<rparr>] ''resnet18'')
         ''a.weight''
       = Some \<lparr>shape = [2], dtype = Float32, elems = [5, 6]\<rparr>
   \<and> fst (load_my_state_dict (\<lambda>a b x. x)
          (\<lambda>url. Inr [(''a.weight'', \<lparr>shape = [2], dtype = Float32, elems = [5, 6::int]\<rparr>),
                      (''b.weight'', \<lparr>shape = [2], dtype = Float32, elems = [1, 2]\<rparr>),
                      (''c.weight'', \<lparr>shape = [1], dtype = Float32, elems = [9]\<rparr>)])
          [''a.weight'' \<mapsto> \<lparr>shape = [2], dtype = Float32, elems = [0, 0]\<rparr>,
           ''b.weight'' \<mapsto> \<lparr>shape = [3], dtype = Float32, elems = [0, 0, 0]\<rparr>,
           ''c.weight'' \<mapsto> \<lparr>shape = [1], dtype = Float32, elems = [0]\<rparr>] ''resnet18'')
         ''b.weight''
       = Some \<lparr>shape = [3], dtype = Float32, elems = [0, 0, 0]\<rparr>
   \<and> fst (load_my_state_dict (\<lambda>a b x. x)
          (\<lambda>url. Inr [(''a.weight'', \<lparr>shape = [2], dtype = Float32, elems = [5, 6::int]\<rparr>),
                      (''b.weight'', \<lparr>shape = [2], dtype = Float32, elems = [1, 2]\<rparr>),
                      (''c.weight'', \<lparr>shape = [1], dtype = Float32, elems = [9]\<rparr>)])
          [''a.weight'' \<mapsto> \<lparr>shape = [2], dtype = Float32, elems = [0, 0]\<rparr>,
           ''b.weight'' \<mapsto> \<lparr>shape = [3], dtype = Float32, elems = [0, 0, 0]\<rparr>,
           ''c.weight'' \<mapsto> \<lparr>shape = [1], dtype = Float32, elems = [0]\<rparr>] ''resnet18'')
         ''c.weight''
       = Some \<lparr>shape = [1], dtype = Float32, elems = [0]\<rparr>"
proof -
  have u: "map_of model_urls ''resnet18''
             = Some ''https://download.pytorch.org/models/resnet18-5c106cde.pth''"
    by (simp add: model_urls_def)
  \<comment> \<open>the first import\<close>
  let ?cv = "\<lambda>(a::dtype) (b::dtype) x::int. if x = 16777217 then 16777216 else x"
  let ?src = "[(''conv1.weight'', \<lparr>shape = [2], dtype = Int64, elems = [16777217, 6::int]\<rparr>),
               (''fc.bias'', \<lparr>shape = [3], dtype = Float32, elems = [1, 2, 3]\<rparr>)]"
  let ?L = "\<lambda>url::string. Inr ?src :: error + (string \<times> int tensor) list"
  let ?net = "[''conv1.weight'' \<mapsto> \<lparr>shape = [2], dtype = Float32, elems = [0, 0::int]\<rparr>]"
  let ?X = "load_my_state_dict ?cv ?L ?net ''resnet18''"
  have l: "?L ''https://download.pytorch.org/models/resnet18-5c106cde.pth'' = Inr ?src"
    by simp
  note T = load_my_state_dict_entries [OF u l, of ?cv ?net]
  have ok: "\<forall>(name, t) \<in> set ?src. \<forall>p. ?net name = Some p
              \<longrightarrow> broadcastable (shape t) (shape p)"
    by (simp add: broadcastable_refl)
  from T have "snd ?X = None \<longleftrightarrow> (\<forall>(name, t) \<in> set ?src. \<forall>p. ?net name = Some p
              \<longrightarrow> broadcastable (shape t) (shape p))"
    by (rule conjunct1)
  with ok have e: "snd ?X = None" by (simp only:)
  from T have "snd ?X = None \<longrightarrow> fst ?X =
            (\<lambda>name. case ?net name of
                 None \<Rightarrow> None
               | Some p \<Rightarrow>
                   (case map_of (rev ?src) name of
                      None \<Rightarrow> Some p
                    | Some t \<Rightarrow> Some (p\<lparr>elems := copied_elems ?cv p t\<rparr>)))"
    by (elim conjE)
  with e have f: "fst ?X =
            (\<lambda>name. case ?net name of
                 None \<Rightarrow> None
               | Some p \<Rightarrow>
                   (case map_of (rev ?src) name of
                      None \<Rightarrow> Some p
                    | Some t \<Rightarrow> Some (p\<lparr>elems := copied_elems ?cv p t\<rparr>)))"
    by (rule_tac mp)
  have w: "fst ?X ''conv1.weight'' = Some \<lparr>shape = [2], dtype = Float32, elems = [16777216, 6]\<rparr>"
    unfolding f by (simp add: copied_elems_def broadcast_elems_def cast_elem_def)
  have x: "fst ?X ''fc.bias'' = None"
    unfolding f by simp
  \<comment> \<open>the second import\<close>
  let ?id = "\<lambda>(a::dtype) (b::dtype) x::int. x"
  let ?pre = "[(''a.weight'', \<lparr>shape = [2], dtype = Float32, elems = [5, 6::int]\<rparr>)]"
  let ?t = "\<lparr>shape = [2], dtype = Float32, elems = [1, 2::int]\<rparr>"
  let ?post = "[(''c.weight'', \<lparr>shape = [1], dtype = Float32, elems = [9::int]\<rparr>)]"
  let ?src2 = "[(''a.weight'', \<lparr>shape = [2], dtype = Float32, elems = [5, 6::int]\<rparr>),
                (''b.weight'', \<lparr>shape = [2], dtype = Float32, elems = [1, 2]\<rparr>),
                (''c.weight'', \<lparr>shape = [1], dtype = Float32, elems = [9]\<rparr>)]"
  let ?L2 = "\<lambda>url::string. Inr ?src2 :: error + (string \<times> int tensor) list"
  let ?p = "\<lparr>shape = [3], dtype = Float32, elems = [0, 0, 0::int]\<rparr>"
  let ?net2 = "[''a.weight'' \<mapsto> \<lparr>shape = [2], dtype = Float32, elems = [0, 0::int]\<rparr>,
           ''b.weight'' \<mapsto> ?p,
           ''c.weight'' \<mapsto> \<lparr>shape = [1], dtype = Float32, elems = [0]\<rparr>]"
  let ?Y = "load_my_state_dict ?id ?L2 ?net2 ''resnet18''"
  have l2: "?L2 ''https://download.pytorch.org/models/resnet18-5c106cde.pth'' = Inr ?src2"
    by simp
  note T2 = load_my_state_dict_entries [OF u l2, of ?id ?net2]
  have hyp: "?src2 = ?pre @ (''b.weight'', ?t) # ?post
          \<and> (\<forall>(n, u) \<in> set ?pre. \<forall>q. ?net2 n = Some q \<longrightarrow> broadcastable (shape u) (shape q))
          \<and> ?net2 ''b.weight'' = Some ?p \<and> \<not> broadcastable (shape ?t) (shape ?p)"
    by (simp add: broadcastable_refl) (simp add: broadcastable_def pad_shape_def)
  from T2 have "\<forall>pre name t post p.
          ?src2 = pre @ (name, t) # post
          \<and> (\<forall>(n, u) \<in> set pre. \<forall>q. ?net2 n = Some q \<longrightarrow> broadcastable (shape u) (shape q))
          \<and> ?net2 name = Some p \<and> \<not> broadcastable (shape t) (shape p) \<longrightarrow>
          ?Y =
            ((\<lambda>n. case ?net2 n of
                 None \<Rightarrow> None
               | Some q \<Rightarrow>
                   (case map_of (rev pre) n of
                      None \<Rightarrow> Some q
                    | Some u \<Rightarrow> Some (q\<lparr>elems := copied_elems ?id q u\<rparr>))),
             Some (RuntimeError ''copy_: sizes do not match''))"
    by (elim conjE)
  then have "?src2 = ?pre @ (''b.weight'', ?t) # ?post
          \<and> (\<forall>(n, u) \<in> set ?pre. \<forall>q. ?net2 n = Some q \<longrightarrow> broadcastable (shape u) (shape q))
          \<and> ?net2 ''b.weight'' = Some ?p \<and> \<not> broadcastable (shape ?t) (shape ?p) \<longrightarrow>
          ?Y =
            ((\<lambda>n. case ?net2 n of
                 None \<Rightarrow> None
               | Some q \<Rightarrow>
                   (case map_of (rev ?pre) n of
                      None \<Rightarrow> Some q
                    | Some u \<Rightarrow> Some (q\<lparr>elems := copied_elems ?id q u\<rparr>))),
             Some (RuntimeError ''copy_: sizes do not match''))"
    by (elim allE)
  with hyp have y: "?Y =
            ((\<lambda>n. case ?net2 n of
                 None \<Rightarrow> None
               | Some q \<Rightarrow>
                   (case map_of (rev ?pre) n of
                      None \<Rightarrow> Some q
                    | Some u \<Rightarrow> Some (q\<lparr>elems := copied_elems ?id q u\<rparr>))),
             Some (RuntimeError ''copy_: sizes do not match''))"
    by (rule_tac mp)
  have y0: "snd ?Y = Some (RuntimeError ''copy_: sizes do not match'')"
    unfolding y by simp
  have ya: "fst ?Y ''a.weight'' = Some \<lparr>shape = [2], dtype = Float32, elems = [5, 6]\<rparr>"
    unfolding y by (simp add: copied_elems_def broadcast_elems_def cast_elem_def)
  have yb: "fst ?Y ''b.weight'' = Some \<lparr>shape = [3], dtype = Float32, elems = [0, 0, 0]\<rparr>"
    unfolding y by simp
  have yc: "fst ?Y ''c.weight'' = Some \<lparr>shape = [1], dtype = Float32, elems = [0]\<rparr>"
    unfolding y by simp
  from e w x y0 ya yb yc show ?thesis by (intro conjI)
qed

text \<open>
  C3 as stated fails: a value whose shape differs from the parameter's is written, and no
  error raised, when the shape can be broadcast. A source tensor of shape \<open>[1]\<close> fills a
  parameter of shape \<open>[2]\<close>.
\<close>

theorem load_my_state_dict_shape_counterexample:
  "shape \<lparr>shape = [1], dtype = Float32, elems = [7::int]\<rparr>
     \<noteq> shape \<lparr>shape = [2], dtype = Float32, elems = [0, 0::int]\<rparr>
   \<and> load_my_state_dict (\<lambda>a b x. x)
          (\<lambda>url. Inr [(''bn1.weight'', \<lparr>shape = [1], dtype = Float32, elems = [7::int]\<rparr>)])
          [''bn1.weight'' \<mapsto> \<lparr>shape = [2], dtype = Float32, elems = [0, 0]\<rparr>] ''resnet18''
       = ([''bn1.weight'' \<mapsto> \<lparr>shape = [2], dtype = Float32, elems = [7, 7]\<rparr>], None)"
  by (simp add: load_my_state_dict_def model_urls_def tensor_copy_def broadcastable_def
      pad_shape_def copied_elems_def broadcast_elems_def cast_elem_def numeral_2_eq_2)

text \<open>
  C7. Importing the same weight source again, after an import that raised no error, raises
  no error and leaves every parameter of the network with the value it had after the
  first import. (\<open>load_url\<close> is a function: both imports read the same entries.)
\<close>

theorem load_my_state_dict_idempotent:
  assumes "load_my_state_dict convert load_url net parameter_url = (net1, None)"
  shows "load_my_state_dict convert load_url net1 parameter_url = (net1, None)"
proof (cases "map_of model_urls parameter_url")
  case None
  then show ?thesis using assms by (simp add: load_my_state_dict_def)
next
  case (Some url)
  show ?thesis
  proof (cases "load_url url")
    case (Inl e)
    then show ?thesis using assms Some by (simp add: load_my_state_dict_def)
  next
    case (Inr src)
    then have "copy_entries convert src net = (net1, None)"
      using assms Some by (simp add: load_my_state_dict_def)
    then have "copy_entries convert src net1 = (net1, None)" by (rule copy_entries_twice)
    then show ?thesis using Some Inr by (simp add: load_my_state_dict_def)
  qed
qed

theorem load_my_state_dict_idempotent_witness:
  "load_my_state_dict (\<lambda>a b x. x)
      (\<lambda>url. Inr [(''bn1.bias'', \<lparr>shape = [2], dtype = Float32, elems = [5, 6::int]\<rparr>),
                  (''fc.weight'', \<lparr>shape = [1], dtype = Float32, elems = [9]\<rparr>)])
      [''bn1.bias'' \<mapsto> \<lparr>shape = [2], dtype = Float32, elems = [0, 0]\<rparr>] ''resnet34''
     = ([''bn1.bias'' \<mapsto> \<lparr>shape = [2], dtype = Float32, elems = [5, 6]\<rparr>], None)
   \<and> load_my_state_dict (\<lambda>a b x. x)
      (\<lambda>url. Inr [(''bn1.bias'', \<lparr>shape = [2], dtype = Float32, elems = [5, 6::int]\<rparr>),
                  (''fc.weight'', \<lparr>shape = [1], dtype = Float32, elems = [9]\<rparr>)])
      [''bn1.bias'' \<mapsto> \<lparr>shape = [2], dtype = Float32, elems = [5, 6]\<rparr>] ''resnet34''
     = ([''bn1.bias'' \<mapsto> \<lparr>shape = [2], dtype = Float32, elems = [5, 6]\<rparr>], None)"
proof -
  have h: "load_my_state_dict (\<lambda>a b x. x)
      (\<lambda>url. Inr [(''bn1.bias'', \<lparr>shape = [2], dtype = Float32, elems = [5, 6::int]\<rparr>),
                  (''fc.weight'', \<lparr>shape = [1], dtype = Float32, elems = [9]\<rparr>)])
      [''bn1.bias'' \<mapsto> \<lparr>shape = [2], dtype = Float32, elems = [0, 0]\<rparr>] ''resnet34''
     = ([''bn1.bias'' \<mapsto> \<lparr>shape = [2], dtype = Float32, elems = [5, 6]\<rparr>], None)"
    by (simp add: load_my_state_dict_def model_urls_def tensor_copy_def broadcastable_refl
        copied_elems_def broadcast_elems_def cast_elem_def)
  from load_my_state_dict_idempotent [OF h] h show ?thesis by (rule_tac conjI)
qed

section \<open>The stage builder and the blocks: proofs\<close>

lemma new_block_stride [simp]: "block_stride (new_block block i p s ds) = s"
  by (cases block) (simp_all add: BasicBlock_def Bottleneck_def)

lemma new_block_downsample [simp]: "block_downsample (new_block block i p s ds) = ds"
  by (cases block) (simp_all add: BasicBlock_def Bottleneck_def)

lemma new_block_in_channels [simp]: "block_in_channels (new_block block i p s ds) = i"
  by (cases block) (simp_all add: BasicBlock_def Bottleneck_def conv3x3_def Conv2d_def)

lemma new_block_out_channels [simp]:
  "block_out_channels (new_block block i p s ds) = p * expansion block"
  by (cases block) (simp_all add: BasicBlock_def Bottleneck_def conv3x3_def Conv2d_def)

lemma make_layer_fst:
  "fst (make_layer block planes blocks strd ip) =
     new_block block ip planes strd
       (if strd \<noteq> 1 \<or> ip \<noteq> planes * expansion block
        then Some [LConv (Conv2d ip (planes * expansion block) 1 strd 0 1),
                   LBN (BatchNorm2d (planes * expansion block))]
        else None)
     # replicate (blocks - 1) (new_block block (planes * expansion block) planes 1 None)"
  by (simp add: make_layer_def Let_def)

lemma make_layer_snd: "snd (make_layer block planes blocks strd ip) = planes * expansion block"
  by (simp add: make_layer_def Let_def)

lemma make_layer_hd_in:
  "block_in_channels (hd (fst (make_layer block planes blocks strd ip))) = ip"
  by (simp add: make_layer_fst)

lemma make_layer_last_out:
  "block_out_channels (last (fst (make_layer block planes blocks strd ip))) =
     planes * expansion block"
  by (simp add: make_layer_fst)

text \<open>
  C4, as the code has it. \<open>_make_layer\<close> builds \<open>max(blocks, 1)\<close> blocks, that is \<open>blocks\<close>
  of them when \<open>blocks\<close> is at least 1, and one block when it is 0. The first block is
  built with the given stride and with an identity-adjustment path (a 1x1 convolution of
  that stride and a normalisation) exactly when the stride is not 1 or the incoming
  channel count differs from \<open>planes * expansion\<close>; every later block is built with stride 1
  and without such a path. The blocks are applied in order, the first one first, and
  \<open>self.inplanes\<close> becomes \<open>planes * expansion\<close>.
\<close>

theorem make_layer_blocks:
  "length (fst (make_layer block planes blocks strd inplanes_before)) = max blocks 1
   \<and> hd (fst (make_layer block planes blocks strd inplanes_before)) =
       new_block block inplanes_before planes strd
         (if strd \<noteq> 1 \<or> inplanes_before \<noteq> planes * expansion block
          then Some [LConv (Conv2d inplanes_before (planes * expansion block) 1 strd 0 1),
                     LBN (BatchNorm2d (planes * expansion block))]
          else None)
   \<and> block_stride (hd (fst (make_layer block planes blocks strd inplanes_before))) = strd
   \<and> (block_downsample (hd (fst (make_layer block planes blocks strd inplanes_before))) \<noteq> None
        \<longleftrightarrow> strd \<noteq> 1 \<or> inplanes_before \<noteq> planes * expansion block)
   \<and> (\<forall>b \<in> set (tl (fst (make_layer block planes blocks strd inplanes_before))).
        b = new_block block (planes * expansion block) planes 1 None
        \<and> block_stride b = 1 \<and> block_downsample b = None)
   \<and> sequential (map (block_forward ops) (fst (make_layer block planes blocks strd inplanes_before))) x =
       bindE (block_forward ops (hd (fst (make_layer block planes blocks strd inplanes_before))) x)
         (sequential (map (block_forward ops)
            (tl (fst (make_layer block planes blocks strd inplanes_before)))))
   \<and> snd (make_layer block planes blocks strd inplanes_before) = planes * expansion block"
  by (auto simp add: make_layer_fst make_layer_snd)

theorem make_layer_blocks_witness:
  "length (fst (make_layer Bottleneck_class 128 4 2 256)) = 4
   \<and> block_stride (hd (fst (make_layer Bottleneck_class 128 4 2 256))) = 2
   \<and> block_downsample (hd (fst (make_layer Bottleneck_class 128 4 2 256))) =
       Some [LConv (Conv2d 256 512 1 2 0 1), LBN (BatchNorm2d 512)]
   \<and> block_stride (last (fst (make_layer Bottleneck_class 128 4 2 256))) = 1
   \<and> block_downsample (last (fst (make_layer Bottleneck_class 128 4 2 256))) = None"
proof -
  note T = make_layer_blocks [where block = Bottleneck_class and planes = 128 and blocks = 4
      and strd = 2 and inplanes_before = 256 and ops = shape_ops and x = "[]"]
  have l: "last (fst (make_layer Bottleneck_class 128 4 2 256))
             \<in> set (tl (fst (make_layer Bottleneck_class 128 4 2 256)))"
    by (simp add: make_layer_fst eval_nat_numeral)
  from T have 1: "length (fst (make_layer Bottleneck_class 128 4 2 256)) = 4" by simp
  from T have 2: "block_stride (hd (fst (make_layer Bottleneck_class 128 4 2 256))) = 2"
    by (elim conjE)
  from T have "hd (fst (make_layer Bottleneck_class 128 4 2 256)) =
       new_block Bottleneck_class 256 128 2
         (if (2::nat) \<noteq> 1 \<or> (256::nat) \<noteq> 128 * expansion Bottleneck_class
          then Some [LConv (Conv2d 256 (128 * expansion Bottleneck_class) 1 2 0 1),
                     LBN (BatchNorm2d (128 * expansion Bottleneck_class))]
          else None)"
    by (elim conjE)
  then have 3: "block_downsample (hd (fst (make_layer Bottleneck_class 128 4 2 256))) =
       Some [LConv (Conv2d 256 512 1 2 0 1), LBN (BatchNorm2d 512)]"
    by (simp add: Bottleneck_def)
  from T have "\<forall>b \<in> set (tl (fst (make_layer Bottleneck_class 128 4 2 256))).
        b = new_block Bottleneck_class (128 * expansion Bottleneck_class) 128 1 None
        \<and> block_stride b = 1 \<and> block_downsample b = None"
    by (elim conjE)
  with l have 4: "block_stride (last (fst (make_layer Bottleneck_class 128 4 2 256))) = 1
      \<and> block_downsample (last (fst (make_layer Bottleneck_class 128 4 2 256))) = None"
    by blast
  from 1 2 3 4 show ?thesis by (intro conjI) simp_all
qed

text \<open>
  C4 as stated fails for a block count of 0: the first block is built before the loop, so
  one block is built, not none.
\<close>

theorem make_layer_count_counterexample:
  "length (fst (make_layer BasicBlock_class 64 0 1 64)) = 1
   \<and> length (fst (make_layer BasicBlock_class 64 0 1 64)) \<noteq> 0"
  by (simp add: make_layer_def Let_def)

text \<open>
  C5. The \<open>downsample\<close> of a \<open>DetNetBottleneck\<close> is always a container: a 1x1 convolution
  of the block's stride followed by a normalisation exactly when the stride is not 1, or
  the input channels differ from \<open>expansion * planes\<close>, or the block type is \<open>B\<close>; and the
  empty container, with no parameter, otherwise. In the forward pass the input, through
  that convolution and normalisation in the first case and as it is in the second, is
  added to the result of the three-convolution branch, and the activation is applied to
  the sum.
\<close>

theorem DetNetBottleneck_downsample:
  "detnet_downsample (DetNetBottleneck in_planes planes strd block_type) =
     (if strd \<noteq> 1 \<or> in_planes \<noteq> detnet_expansion * planes \<or> block_type = ''B''
      then [LConv (Conv2d in_planes (detnet_expansion * planes) 1 strd 0 1),
            LBN (BatchNorm2d (detnet_expansion * planes))]
      else [])
   \<and> (strd \<noteq> 1 \<or> in_planes \<noteq> detnet_expansion * planes \<or> block_type = ''B'' \<longrightarrow>
        seq_param_count (detnet_downsample (DetNetBottleneck in_planes planes strd block_type))
          = detnet_expansion * planes * in_planes + 2 * (detnet_expansion * planes)
        \<and> detnet_forward ops (DetNetBottleneck in_planes planes strd block_type) x =
            bindE (detnet_branch ops (DetNetBottleneck in_planes planes strd block_type) x) (\<lambda>out.
            bindE (bindE (conv2d_op ops (Conv2d in_planes (detnet_expansion * planes) 1 strd 0 1) x)
                     (batch_norm_op ops (BatchNorm2d (detnet_expansion * planes)))) (\<lambda>residual.
            bindE (add_op ops out residual) (\<lambda>out.
            Inr (relu_op ops out)))))
   \<and> (\<not> (strd \<noteq> 1 \<or> in_planes \<noteq> detnet_expansion * planes \<or> block_type = ''B'') \<longrightarrow>
        seq_param_count (detnet_downsample (DetNetBottleneck in_planes planes strd block_type)) = 0
        \<and> detnet_forward ops (DetNetBottleneck in_planes planes strd block_type) x =
            bindE (detnet_branch ops (DetNetBottleneck in_planes planes strd block_type) x) (\<lambda>out.
            bindE (add_op ops out x) (\<lambda>out.
            Inr (relu_op ops out))))"
proof -
  let ?c = "Conv2d in_planes (detnet_expansion * planes) 1 strd 0 1"
  let ?b = "BatchNorm2d (detnet_expansion * planes)"
  let ?blk = "DetNetBottleneck in_planes planes strd block_type"
  have bind_r: "bindE m Inr = m" for m :: "error + 'b"
    by (cases m) (simp_all add: bindE_def)
  have seq_nil: "sequential [] = (Inr :: 'b \<Rightarrow> error + 'b)"
    by (rule ext) simp
  have seq1: "sequential [f] = f" for f :: "'b \<Rightarrow> error + 'b"
    by (rule ext) (simp add: seq_nil bind_r)
  have app_bn: "apply_layer ops (LBN b) = batch_norm_op ops b" for b
    by (rule ext) simp
  have seq2: "sequential (map (apply_layer ops) [LConv ?c, LBN ?b]) x =
                bindE (conv2d_op ops ?c x) (batch_norm_op ops ?b)"
    by (simp add: seq1 app_bn)
  have seq0: "bindE (sequential (map (apply_layer ops) []) x) f = f x" for f
    by (simp add: bindE_def)
  have pc: "seq_param_count [LConv ?c, LBN ?b]
          = detnet_expansion * planes * in_planes + 2 * (detnet_expansion * planes)"
    by (simp add: seq_param_count_def Conv2d_def BatchNorm2d_def)
  have pc0: "seq_param_count [] = 0"
    by (simp add: seq_param_count_def)
  have ds: "detnet_downsample ?blk =
     (if strd \<noteq> 1 \<or> in_planes \<noteq> detnet_expansion * planes \<or> block_type = ''B''
      then [LConv ?c, LBN ?b] else [])"
    by (simp add: DetNetBottleneck_def)
  show ?thesis
  proof (cases "strd \<noteq> 1 \<or> in_planes \<noteq> detnet_expansion * planes \<or> block_type = ''B''")
    case True
    then have d: "detnet_downsample ?blk = [LConv ?c, LBN ?b]" by (simp only: ds if_True)
    have "detnet_forward ops ?blk x =
            bindE (detnet_branch ops ?blk x) (\<lambda>out.
            bindE (bindE (conv2d_op ops ?c x) (batch_norm_op ops ?b)) (\<lambda>residual.
            bindE (add_op ops out residual) (\<lambda>out.
            Inr (relu_op ops out))))"
      unfolding detnet_forward_def d seq2 ..
    with True d pc show ?thesis by (simp only: if_True not_True_eq_False simp_thms)
  next
    case False
    then have d: "detnet_downsample ?blk = []" by (simp only: ds if_False)
    have "detnet_forward ops ?blk x =
            bindE (detnet_branch ops ?blk x) (\<lambda>out.
            bindE (add_op ops out x) (\<lambda>out.
            Inr (relu_op ops out)))"
      unfolding detnet_forward_def d seq0 ..
    with False d pc0 show ?thesis by (simp only: if_False not_False_eq_True simp_thms)
  qed
qed

theorem DetNetBottleneck_downsample_witness:
  "detnet_downsample (DetNetBottleneck 256 256 1 ''A'') = []
   \<and> detnet_downsample (DetNetBottleneck 512 256 1 ''B'')
       = [LConv (Conv2d 512 256 1 1 0 1), LBN (BatchNorm2d 256)]
   \<and> detnet_downsample (DetNetBottleneck 256 256 1 ''B'')
       = [LConv (Conv2d 256 256 1 1 0 1), LBN (BatchNorm2d 256)]
   \<and> seq_param_count (detnet_downsample (DetNetBottleneck 256 256 1 ''A'')) = 0"
  using DetNetBottleneck_downsample
          [where in_planes = 256 and planes = 256 and strd = 1 and block_type = "''A''"
             and ops = shape_ops and x = "[]"]
        DetNetBottleneck_downsample
          [where in_planes = 512 and planes = 256 and strd = 1 and block_type = "''B''"
             and ops = shape_ops and x = "[]"]
        DetNetBottleneck_downsample
          [where in_planes = 256 and planes = 256 and strd = 1 and block_type = "''B''"
             and ops = shape_ops and x = "[]"]
  by (simp add: detnet_expansion_def seq_param_count_def)

section \<open>The constructor: proofs\<close>

lemma ResNet_layers_fields:
  "conv1 (ResNet_layers block layers) = Conv2d 3 64 7 2 3 1"
  "bn1 (ResNet_layers block layers) = BatchNorm2d 64"
  "maxpool (ResNet_layers block layers) = (3, 2, 1)"
  "layer1 (ResNet_layers block layers) = fst (make_layer block 64 (layers ! 0) 1 64)"
  "layer2 (ResNet_layers block layers) =
     fst (make_layer block 128 (layers ! 1) 2 (64 * expansion block))"
  "layer3 (ResNet_layers block layers) =
     fst (make_layer block 256 (layers ! 2) 2 (128 * expansion block))"
  "layer4 (ResNet_layers block layers) =
     fst (make_layer block 512 (layers ! 3) 2 (256 * expansion block))"
  "layer5 (ResNet_layers block layers) = make_detnet_layer (layers ! 4)"
  "avgpool (ResNet_layers block layers) = 2"
  "conv_end (ResNet_layers block layers) = Conv2d 256 10 3 1 1 1"
  "bn_end (ResNet_layers block layers) = BatchNorm2d 10"
  "inplanes (ResNet_layers block layers) = 512 * expansion block"
  by (simp_all add: ResNet_layers_def split_def Let_def make_layer_snd)

lemma init_weights_fields:
  "conv1 (init_weights net) = init_conv (conv1 net)"
  "bn1 (init_weights net) = init_bn (bn1 net)"
  "maxpool (init_weights net) = maxpool net"
  "layer1 (init_weights net) = map init_block (layer1 net)"
  "layer2 (init_weights net) = map init_block (layer2 net)"
  "layer3 (init_weights net) = map init_block (layer3 net)"
  "layer4 (init_weights net) = map init_block (layer4 net)"
  "layer5 (init_weights net) = map init_detnet (layer5 net)"
  "avgpool (init_weights net) = avgpool net"
  "conv_end (init_weights net) = init_conv (conv_end net)"
  "bn_end (init_weights net) = init_bn (bn_end net)"
  "inplanes (init_weights net) = inplanes net"
  by (simp_all add: init_weights_def)

lemma expansion_pos: "0 < expansion block"
  by (cases block) simp_all

lemma new_block_no_zero:
  assumes "0 < planes" and "\<forall>m \<in> set (case ds of None \<Rightarrow> [] | Some d \<Rightarrow> d). \<not> zero_fan_out m"
    and "m \<in> set (block_modules (new_block block ip planes s ds))"
  shows "\<not> zero_fan_out m"
  using assms
  by (cases block)
     (auto simp: BasicBlock_def Bottleneck_def conv3x3_def Conv2d_def fan_out_def)

lemma make_layer_no_zero:
  assumes "0 < planes" and "b \<in> set (fst (make_layer block planes blocks strd ip))"
    and "m \<in> set (block_modules b)"
  shows "\<not> zero_fan_out m"
proof -
  let ?ds = "if strd \<noteq> 1 \<or> ip \<noteq> planes * expansion block
        then Some [LConv (Conv2d ip (planes * expansion block) 1 strd 0 1),
                   LBN (BatchNorm2d (planes * expansion block))]
        else None"
  have d: "\<forall>m \<in> set (case ?ds of None \<Rightarrow> [] | Some d \<Rightarrow> d). \<not> zero_fan_out m"
    using assms(1) expansion_pos[of block] by (simp add: Conv2d_def fan_out_def)
  from assms(2) consider
      "b = new_block block ip planes strd ?ds"
    | "b = new_block block (planes * expansion block) planes 1 None"
    by (auto simp: make_layer_fst)
  then show ?thesis
  proof cases
    case 1
    with assms(3) show ?thesis using new_block_no_zero[OF assms(1) d] by blast
  next
    case 2
    with assms(3) show ?thesis using new_block_no_zero[OF assms(1), of None] by simp
  qed
qed

lemma make_detnet_layer_no_zero:
  assumes "b \<in> set (make_detnet_layer c)" and "m \<in> set (detnet_modules b)"
  shows "\<not> zero_fan_out m"
  using assms
  by (auto simp: make_detnet_layer_def DetNetBottleneck_def detnet_expansion_def Conv2d_def
      fan_out_def split: if_splits)

lemma ResNet_layers_no_zero: "\<not> list_ex zero_fan_out (modules (ResNet_layers block layers))"
proof -
  have "\<not> zero_fan_out m" if "m \<in> set (modules (ResNet_layers block layers))" for m
  proof -
    from that consider
        "m = LConv (Conv2d 3 64 7 2 3 1)" | "m = LBN (BatchNorm2d 64)"
      | b where "b \<in> set (fst (make_layer block 64 (layers ! 0) 1 64))" "m \<in> set (block_modules b)"
      | b where "b \<in> set (fst (make_layer block 128 (layers ! 1) 2 (64 * expansion block)))"
          "m \<in> set (block_modules b)"
      | b where "b \<in> set (fst (make_layer block 256 (layers ! 2) 2 (128 * expansion block)))"
          "m \<in> set (block_modules b)"
      | b where "b \<in> set (fst (make_layer block 512 (layers ! 3) 2 (256 * expansion block)))"
          "m \<in> set (block_modules b)"
      | b where "b \<in> set (make_detnet_layer (layers ! 4))" "m \<in> set (detnet_modules b)"
      | "m = LConv (Conv2d 256 10 3 1 1 1)" | "m = LBN (BatchNorm2d 10)"
      unfolding modules_def ResNet_layers_fields by auto
    then show ?thesis
    proof cases
      case 1 then show ?thesis by (simp add: Conv2d_def fan_out_def)
    next
      case 2 then show ?thesis by simp
    next
      case 3 then show ?thesis using make_layer_no_zero[of 64] by simp
    next
      case 4 then show ?thesis using make_layer_no_zero[of 128] by simp
    next
      case 5 then show ?thesis using make_layer_no_zero[of 256] by simp
    next
      case 6 then show ?thesis using make_layer_no_zero[of 512] by simp
    next
      case 7 then show ?thesis using make_detnet_layer_no_zero by simp
    next
      case 8 then show ?thesis by (simp add: Conv2d_def fan_out_def)
    next
      case 9 then show ?thesis by simp
    qed
  qed
  then show ?thesis by (auto simp: list_ex_iff)
qed

lemma ResNet_Inr:
  "5 \<le> length layers \<Longrightarrow> ResNet block layers = Inr (init_weights (ResNet_layers block layers))"
  by (simp add: ResNet_def init_modules_def ResNet_layers_no_zero)

lemma ResNet_Inr_iff:
  "ResNet block layers = Inr net \<longleftrightarrow>
     5 \<le> length layers \<and> net = init_weights (ResNet_layers block layers)"
  by (auto simp: ResNet_def init_modules_def ResNet_layers_no_zero)

lemma block_modules_init: "block_modules (init_block b) = map init_layer (block_modules b)"
  by (cases b) (auto split: option.splits)

lemma detnet_modules_init: "detnet_modules (init_detnet b) = map init_layer (detnet_modules b)"
  by (cases b) auto

lemma modules_init_weights: "modules (init_weights net) = map init_layer (modules net)"
  by (simp add: modules_def init_weights_fields map_concat comp_def block_modules_init
      detnet_modules_init)

lemma init_block_channels [simp]:
  "block_in_channels (init_block b) = block_in_channels b"
  "block_out_channels (init_block b) = block_out_channels b"
  by (cases b; simp add: init_conv_def)+

lemma init_detnet_in_channels [simp]:
  "detnet_in_channels (init_detnet b) = detnet_in_channels b"
  by (cases b) (simp add: init_conv_def)


lemma ResNet_modules_initialised:
  assumes "ResNet block layers = Inr net" and "m \<in> set (modules net)"
  shows "case m of
           LConv c \<Rightarrow>
             0 < fan_out c \<and>
             p_values (weight c) =
               Normal 0 (sqrt (2 / real (fst (kernel_size c) * snd (kernel_size c) * out_channels c)))
         | LBN b \<Rightarrow> p_values (bn_weight b) = Constant 1 \<and> p_values (bn_bias b) = Constant 0"
proof -
  from assms(1) have net: "net = init_weights (ResNet_layers block layers)"
    by (simp add: ResNet_Inr_iff)
  with assms(2) obtain m0 where m0: "m0 \<in> set (modules (ResNet_layers block layers))"
    and m: "m = init_layer m0"
    by (auto simp: modules_init_weights)
  from m0 have nz: "\<not> zero_fan_out m0"
    using ResNet_layers_no_zero[of block layers] by (simp add: list_ex_iff)
  show ?thesis
  proof (cases m0)
    case (LConv c0)
    with nz m show ?thesis by (simp add: init_conv_def fan_out_def)
  next
    case (LBN b0)
    with m show ?thesis by (simp add: init_bn_def)
  qed
qed

lemma configuration_ResNet:
  "\<exists>block layers. configuration d = ResNet block layers \<and> length layers = 5
      \<and> layers ! 4 = 512 * expansion block"
proof (cases d)
  case D18
  then show ?thesis
    by (intro exI[of _ BasicBlock_class] exI[of _ "[2, 2, 2, 2, 512]"]) (simp add: resnet18_def)
next
  case D34
  then show ?thesis
    by (intro exI[of _ BasicBlock_class] exI[of _ "[3, 4, 6, 3, 512]"]) (simp add: resnet34_def)
next
  case D50
  then show ?thesis
    by (intro exI[of _ Bottleneck_class] exI[of _ "[3, 4, 6, 3, 2048]"]) (simp add: resnet50_def)
next
  case D101
  then show ?thesis
    by (intro exI[of _ Bottleneck_class] exI[of _ "[3, 4, 23, 3, 2048]"])
       (simp add: resnet101_def)
next
  case D152
  then show ?thesis
    by (intro exI[of _ Bottleneck_class] exI[of _ "[3, 8, 36, 3, 2048]"])
       (simp add: resnet152_def)
qed

lemma ResNet_channels:
  assumes "net = init_weights (ResNet_layers block layers)"
    and "layers ! 4 = 512 * expansion block"
  shows "layer1 net \<noteq> [] \<and> layer2 net \<noteq> [] \<and> layer3 net \<noteq> [] \<and> layer4 net \<noteq> []
     \<and> layer5 net \<noteq> []
     \<and> block_out_channels (last (layer1 net)) = block_in_channels (hd (layer2 net))
     \<and> block_out_channels (last (layer2 net)) = block_in_channels (hd (layer3 net))
     \<and> block_out_channels (last (layer3 net)) = block_in_channels (hd (layer4 net))
     \<and> block_out_channels (last (layer4 net)) = detnet_in_channels (hd (layer5 net))"
proof -
  have ne: "fst (make_layer block planes blocks strd ip) \<noteq> []" for planes blocks strd ip
    by (simp add: make_layer_fst)
  have lo: "block_out_channels (last (map init_block (fst (make_layer block planes blocks strd ip))))
              = planes * expansion block" for planes blocks strd ip
    using ne[of planes blocks strd ip] make_layer_last_out[of block planes blocks strd ip]
    by (simp add: last_map)
  have hi: "block_in_channels (hd (map init_block (fst (make_layer block planes blocks strd ip))))
              = ip" for planes blocks strd ip
    using ne[of planes blocks strd ip] make_layer_hd_in[of block planes blocks strd ip]
    by (simp add: hd_map)
  have d: "detnet_in_channels (hd (map init_detnet (make_detnet_layer c))) = c" for c
    by (simp add: make_detnet_layer_def DetNetBottleneck_def Conv2d_def init_conv_def)
  have dn: "make_detnet_layer c \<noteq> []" for c
    by (simp add: make_detnet_layer_def)
  show ?thesis
    unfolding assms(1) init_weights_fields ResNet_layers_fields
    by (simp add: ne lo hi d dn assms(2))
qed

text \<open>
  C6. Each of the five configurations is built without error, and in the network it
  returns, before any import, every normalisation layer has its scale filled with 1 and
  its shift filled with 0, and every convolution layer has its weight filled by
  \<open>normal_\<close> with mean 0 and standard deviation
  \<open>sqrt(2 / (kernel_height * kernel_width * out_channels))\<close>, a product that is never 0.
  That \<open>normal_\<close> draws the elements independently from that normal distribution is the
  meaning of the filling \<open>Normal\<close>.
\<close>

theorem configuration_initialised:
  "\<exists>net. configuration d = Inr net \<and>
     (\<forall>m \<in> set (modules net).
        case m of
           LConv c \<Rightarrow>
             0 < fan_out c \<and>
             p_values (weight c) =
               Normal 0 (sqrt (2 / real (fst (kernel_size c) * snd (kernel_size c) * out_channels c)))
         | LBN b \<Rightarrow> p_values (bn_weight b) = Constant 1 \<and> p_values (bn_bias b) = Constant 0)"
proof -
  obtain block layers where c: "configuration d = ResNet block layers" and l: "length layers = 5"
    using configuration_ResNet[of d] by blast
  let ?net = "init_weights (ResNet_layers block layers)"
  from l have r: "ResNet block layers = Inr ?net"
    by (simp add: ResNet_Inr)
  have "\<forall>m \<in> set (modules ?net).
        case m of
           LConv c \<Rightarrow>
             0 < fan_out c \<and>
             p_values (weight c) =
               Normal 0 (sqrt (2 / real (fst (kernel_size c) * snd (kernel_size c) * out_channels c)))
         | LBN b \<Rightarrow> p_values (bn_weight b) = Constant 1 \<and> p_values (bn_bias b) = Constant 0"
    by (intro ballI) (rule ResNet_modules_initialised[OF r])
  moreover have "configuration d = Inr ?net" using c r by simp
  ultimately show ?thesis by (intro exI[of _ ?net] conjI)
qed

theorem configuration_initialised_witness:
  "\<exists>net. resnet18 = Inr net
     \<and> p_values (weight (conv1 net)) = Normal 0 (sqrt (2 / 3136))
     \<and> p_values (bn_weight (bn1 net)) = Constant 1
     \<and> p_values (bn_bias (bn1 net)) = Constant 0"
proof -
  from configuration_initialised [of D18] obtain net where
    n: "resnet18 = Inr net" and
    a: "\<forall>m \<in> set (modules net).
        case m of
           LConv c \<Rightarrow>
             0 < fan_out c \<and>
             p_values (weight c) =
               Normal 0 (sqrt (2 / real (fst (kernel_size c) * snd (kernel_size c) * out_channels c)))
         | LBN b \<Rightarrow> p_values (bn_weight b) = Constant 1 \<and> p_values (bn_bias b) = Constant 0"
    by auto
  from n have net: "net = init_weights (ResNet_layers BasicBlock_class [2, 2, 2, 2, 512])"
    by (simp add: resnet18_def ResNet_Inr_iff)
  have k: "kernel_size (conv1 net) = (7, 7)" "out_channels (conv1 net) = 64"
    by (simp_all add: net init_weights_fields ResNet_layers_fields init_conv_def Conv2d_def)
  have mc: "LConv (conv1 net) \<in> set (modules net)" and mb: "LBN (bn1 net) \<in> set (modules net)"
    by (simp_all add: modules_def)
  from bspec[OF a mc] have w: "p_values (weight (conv1 net)) =
      Normal 0 (sqrt (2 / real (fst (kernel_size (conv1 net)) * snd (kernel_size (conv1 net))
         * out_channels (conv1 net))))"
    by simp
  from bspec[OF a mb]
  have b: "p_values (bn_weight (bn1 net)) = Constant 1 \<and> p_values (bn_bias (bn1 net)) = Constant 0"
    by simp
  from w k have "p_values (weight (conv1 net)) = Normal 0 (sqrt (2 / 3136))" by simp
  with n b show ?thesis by (intro exI[of _ net]) simp
qed

text \<open>
  C8. In each of the five configurations every stage has a block, and the channels that
  the last block of a stage returns are the channels that the first block of the next
  stage expects, from stage 1 to stage 4 and from stage 4 to the detection head.
\<close>

theorem configuration_channels:
  "\<exists>net. configuration d = Inr net
     \<and> layer1 net \<noteq> [] \<and> layer2 net \<noteq> [] \<and> layer3 net \<noteq> [] \<and> layer4 net \<noteq> []
     \<and> layer5 net \<noteq> []
     \<and> block_out_channels (last (layer1 net)) = block_in_channels (hd (layer2 net))
     \<and> block_out_channels (last (layer2 net)) = block_in_channels (hd (layer3 net))
     \<and> block_out_channels (last (layer3 net)) = block_in_channels (hd (layer4 net))
     \<and> block_out_channels (last (layer4 net)) = detnet_in_channels (hd (layer5 net))"
proof -
  obtain block layers where c: "configuration d = ResNet block layers" and l: "length layers = 5"
    and h: "layers ! 4 = 512 * expansion block"
    using configuration_ResNet[of d] by blast
  from l have "ResNet block layers = Inr (init_weights (ResNet_layers block layers))"
    by (simp add: ResNet_Inr)
  with c show ?thesis using ResNet_channels[OF refl h] by (intro exI[of _ "init_weights (ResNet_layers block layers)"]) simp
qed

section \<open>The forward pass: proofs on shapes\<close>

text \<open>The initialiser changes no shape: a shape goes through a layer as before it.\<close>

lemma shape_conv2d_init: "shape_conv2d (init_conv c) x = shape_conv2d c x"
  by (cases "(c, x)" rule: shape_conv2d.cases) (simp_all add: init_conv_def)

lemma shape_batch_norm_init: "shape_batch_norm (init_bn b) x = shape_batch_norm b x"
  by (cases "(b, x)" rule: shape_batch_norm.cases) (simp_all add: init_bn_def)

lemma shape_conv2d_init_fun: "shape_conv2d (init_conv c) = shape_conv2d c"
  by (rule ext) (rule shape_conv2d_init)

lemma shape_batch_norm_init_fun: "shape_batch_norm (init_bn b) = shape_batch_norm b"
  by (rule ext) (rule shape_batch_norm_init)

lemma apply_layer_shape_init:
  "apply_layer shape_ops (init_layer l) = apply_layer shape_ops l"
  by (cases l) (auto simp: shape_ops_def shape_conv2d_init shape_batch_norm_init)

lemma block_forward_shape_init:
  "block_forward shape_ops (init_block b) = block_forward shape_ops b"
proof (rule ext)
  fix x
  show "block_forward shape_ops (init_block b) x = block_forward shape_ops b x"
    by (cases b)
       (simp_all add: shape_ops_def shape_conv2d_init shape_batch_norm_init
          apply_layer_shape_init[unfolded shape_ops_def] comp_def split: option.splits)
qed

lemma detnet_forward_shape_init:
  "detnet_forward shape_ops (init_detnet b) = detnet_forward shape_ops b"
proof (rule ext)
  fix x
  show "detnet_forward shape_ops (init_detnet b) x = detnet_forward shape_ops b x"
    by (cases b)
       (simp add: detnet_forward_def shape_ops_def shape_conv2d_init shape_batch_norm_init
          shape_batch_norm_init_fun shape_conv2d_init_fun
          apply_layer_shape_init[unfolded shape_ops_def] comp_def)
qed

lemma forward_shape_init:
  "forward shape_ops (init_weights net) x = forward shape_ops net x"
  by (simp add: forward_def init_weights_fields block_forward_shape_init
      detnet_forward_shape_init comp_def)
     (simp add: shape_ops_def shape_conv2d_init shape_batch_norm_init)

lemma new_block_shape:
  assumes "0 < s" and "0 < h" and "0 < w"
    and "ds = (if s \<noteq> 1 \<or> ip \<noteq> planes * expansion block
               then Some [LConv (Conv2d ip (planes * expansion block) 1 s 0 1),
                          LBN (BatchNorm2d (planes * expansion block))]
               else None)"
  shows "block_forward shape_ops (new_block block ip planes s ds) [n, ip, h, w] =
           Inr [n, planes * expansion block, (h - 1) div s + 1, (w - 1) div s + 1]"
  using assms
  by (cases block)
     (auto simp: BasicBlock_def Bottleneck_def conv3x3_def Conv2d_def BatchNorm2d_def
        shape_ops_def bindE_def window_out_def shape_add_def broadcastable_refl)

lemma replicate_block_shape:
  assumes "0 < h" and "0 < w"
  shows "sequential (map (block_forward shape_ops)
            (replicate k (new_block block (planes * expansion block) planes 1 None)))
           [n, planes * expansion block, h, w]
         = Inr [n, planes * expansion block, h, w]"
proof (induction k)
  case 0
  show ?case by simp
next
  case (Suc k)
  have "block_forward shape_ops (new_block block (planes * expansion block) planes 1 None)
          [n, planes * expansion block, h, w] = Inr [n, planes * expansion block, h, w]"
    using new_block_shape[of 1 h w None "planes * expansion block" planes block n] assms
    by simp
  with Suc show ?case by (simp add: bindE_def)
qed

lemma make_layer_shape:
  assumes "0 < s" and "0 < h" and "0 < w"
  shows "sequential (map (block_forward shape_ops) (fst (make_layer block planes blocks s ip)))
           [n, ip, h, w]
         = Inr [n, planes * expansion block, (h - 1) div s + 1, (w - 1) div s + 1]"
proof -
  let ?first = "new_block block ip planes s
            (if s \<noteq> 1 \<or> ip \<noteq> planes * expansion block
             then Some [LConv (Conv2d ip (planes * expansion block) 1 s 0 1),
                        LBN (BatchNorm2d (planes * expansion block))]
             else None)"
  let ?rest = "new_block block (planes * expansion block) planes 1 None"
  let ?out = "[n, planes * expansion block, (h - 1) div s + 1, (w - 1) div s + 1]"
  have f: "fst (make_layer block planes blocks s ip) = ?first # replicate (blocks - 1) ?rest"
    by (rule make_layer_fst)
  have 1: "block_forward shape_ops ?first [n, ip, h, w] = Inr ?out"
    using assms by (intro new_block_shape) simp_all
  have 2: "sequential (map (block_forward shape_ops) (replicate (blocks - 1) ?rest)) ?out
             = Inr ?out"
    by (rule replicate_block_shape) simp_all
  show ?thesis
    unfolding f by (simp only: list.map sequential.simps 1 bindE_def sum.case 2)
qed

lemma make_detnet_layer_shape:
  assumes "0 < h" and "0 < w"
  shows "sequential (map (detnet_forward shape_ops) (make_detnet_layer c)) [n, c, h, w]
         = Inr [n, 256, h, w]"
  using assms
  by (simp add: make_detnet_layer_def detnet_forward_def DetNetBottleneck_def
      detnet_expansion_def Conv2d_def BatchNorm2d_def shape_ops_def bindE_def window_out_def
      shape_add_def broadcastable_refl)

lemma ResNet_layers_forward_shape:
  assumes "layers ! 4 = 512 * expansion block"
  shows "forward shape_ops (ResNet_layers block layers) [n, 3, 448, 448] = Inr [n, 14, 14, 10]"
proof -
  have c1: "shape_conv2d (Conv2d 3 64 7 2 3 1) [n, 3, 448, 448] = Inr [n, 64, 224, 224]"
    by (simp add: Conv2d_def bindE_def window_out_def)
  have b1: "shape_batch_norm (BatchNorm2d 64) [n, 64, 224, 224] = Inr [n, 64, 224, 224]"
    by (simp add: BatchNorm2d_def)
  have mp: "shape_max_pool2d (3, 2, 1) [n, 64, 224, 224] = Inr [n, 64, 112, 112]"
    by (simp add: bindE_def window_out_def)
  have l1: "sequential (map (block_forward shape_ops) (fst (make_layer block 64 (layers ! 0) 1 64)))
              [n, 64, 112, 112] = Inr [n, 64 * expansion block, 112, 112]"
    using make_layer_shape[of 1 112 112 block 64 "layers ! 0" 64 n] by simp
  have l2: "sequential (map (block_forward shape_ops)
               (fst (make_layer block 128 (layers ! 1) 2 (64 * expansion block))))
              [n, 64 * expansion block, 112, 112] = Inr [n, 128 * expansion block, 56, 56]"
    using make_layer_shape[of 2 112 112 block 128 "layers ! 1" "64 * expansion block" n] by simp
  have l3: "sequential (map (block_forward shape_ops)
               (fst (make_layer block 256 (layers ! 2) 2 (128 * expansion block))))
              [n, 128 * expansion block, 56, 56] = Inr [n, 256 * expansion block, 28, 28]"
    using make_layer_shape[of 2 56 56 block 256 "layers ! 2" "128 * expansion block" n] by simp
  have l4: "sequential (map (block_forward shape_ops)
               (fst (make_layer block 512 (layers ! 3) 2 (256 * expansion block))))
              [n, 256 * expansion block, 28, 28] = Inr [n, 512 * expansion block, 14, 14]"
    using make_layer_shape[of 2 28 28 block 512 "layers ! 3" "256 * expansion block" n] by simp
  have l5: "sequential (map (detnet_forward shape_ops) (make_detnet_layer (layers ! 4)))
              [n, 512 * expansion block, 14, 14] = Inr [n, 256, 14, 14]"
    using make_detnet_layer_shape[of 14 14 "512 * expansion block" n] assms by simp
  have ce: "shape_conv2d (Conv2d 256 10 3 1 1 1) [n, 256, 14, 14] = Inr [n, 10, 14, 14]"
    by (simp add: Conv2d_def bindE_def window_out_def)
  have be: "shape_batch_norm (BatchNorm2d 10) [n, 10, 14, 14] = Inr [n, 10, 14, 14]"
    by (simp add: BatchNorm2d_def)
  have pm: "shape_permute [0, 2, 3, 1] [n, 10, 14, 14] = Inr [n, 14, 14, 10]"
    by (simp add: shape_permute_def)
  have ops: "conv2d_op shape_ops = shape_conv2d" "batch_norm_op shape_ops = shape_batch_norm"
    "relu_op shape_ops = (\<lambda>x. x)" "max_pool2d_op shape_ops = shape_max_pool2d"
    "sigmoid_op shape_ops = (\<lambda>x. x)" "permute_op shape_ops = shape_permute"
    by (simp_all add: shape_ops_def)
  have bl: "bindE (Inr y) f = f y" for y :: "nat list" and f :: "nat list \<Rightarrow> error + nat list"
    by (simp add: bindE_def)
  show ?thesis
    unfolding forward_def ResNet_layers_fields ops c1 bl b1 mp l1 l2 l3 l4 l5 ce be pm ..
qed

lemma ResNet_layers_forward_channels:
  "forward shape_ops (ResNet_layers block layers) [n, 4, h, w] =
     Inl (RuntimeError ''input channels do not match the weight'')"
  by (simp add: forward_def ResNet_layers_fields shape_ops_def Conv2d_def bindE_def)


lemma configuration_Inr:
  "\<exists>block layers. configuration d = Inr (init_weights (ResNet_layers block layers))
      \<and> layers ! 4 = 512 * expansion block"
proof -
  obtain block layers where c: "configuration d = ResNet block layers" and l: "length layers = 5"
    and h: "layers ! 4 = 512 * expansion block"
    using configuration_ResNet[of d] by blast
  from l have "ResNet block layers = Inr (init_weights (ResNet_layers block layers))"
    by (simp add: ResNet_Inr)
  with c h show ?thesis by auto
qed

text \<open>
  C1. The first convolution is built with 3 input channels, and the forward pass of the
  18-layer configuration on the input of the module's own \<open>test()\<close>, of shape
  \<open>(10, 4, 448, 448)\<close>, fails at that convolution: the claim does not hold of the code.
\<close>

theorem resnet18_four_channel_input:
  "bindE resnet18 (\<lambda>net. Inr (in_channels (conv1 net))) = Inr 3
   \<and> output_shape D18 [10, 4, 448, 448] =
       Inl (RuntimeError ''input channels do not match the weight'')"
proof -
  have r: "resnet18 = Inr (init_weights (ResNet_layers BasicBlock_class [2, 2, 2, 2, 512]))"
    by (simp add: resnet18_def ResNet_Inr)
  show ?thesis
    by (simp add: output_shape_def r bindE_def forward_shape_init ResNet_layers_forward_channels
        init_weights_fields ResNet_layers_fields init_conv_def Conv2d_def)
qed

text \<open>
  C2. For every configuration and every batch size, the forward pass on an input of shape
  \<open>(N, 4, 448, 448)\<close> fails at the first convolution and returns no tensor: the claim
  does not hold of the code.
\<close>

theorem forward_four_channels_no_output:
  "output_shape d [n, 4, 448, 448] =
     Inl (RuntimeError ''input channels do not match the weight'')"
proof -
  obtain block layers where
    "configuration d = Inr (init_weights (ResNet_layers block layers))"
    using configuration_Inr[of d] by blast
  then show ?thesis
    by (simp add: output_shape_def bindE_def forward_shape_init ResNet_layers_forward_channels)
qed

text \<open>
  C9. For every configuration and every batch size \<open>N\<close>, the forward pass on an input of
  shape \<open>(N, 3, 448, 448)\<close>, the 448x448 input that the first convolution takes, returns a
  tensor of shape \<open>(N, 14, 14, 10)\<close>: a grid of 14 by 14, the input size divided by 32. The
  2x2 average pooling is built (\<open>avgpool\<close> is 2) and the forward pass never reads it: it
  returns the same for every value of \<open>avgpool\<close>, on every network, at every reading of
  the tensor operations.
\<close>

theorem forward_grid:
  "output_shape d [n, 3, 448, 448] = Inr [n, 14, 14, 10]
   \<and> bindE (configuration d) (\<lambda>net. Inr (avgpool net)) = Inr 2
   \<and> forward ops (net\<lparr>avgpool := a\<rparr>) x = forward ops net x"
proof -
  obtain block layers where
    c: "configuration d = Inr (init_weights (ResNet_layers block layers))"
    and h: "layers ! 4 = 512 * expansion block"
    using configuration_Inr[of d] by blast
  have 1: "output_shape d [n, 3, 448, 448] = Inr [n, 14, 14, 10]"
    using c ResNet_layers_forward_shape[OF h]
    by (simp add: output_shape_def bindE_def forward_shape_init)
  have 2: "bindE (configuration d) (\<lambda>net. Inr (avgpool net)) = Inr 2"
    using c by (simp add: bindE_def init_weights_fields ResNet_layers_fields)
  have 3: "forward ops (net\<lparr>avgpool := a\<rparr>) x = forward ops net x"
    by (simp add: forward_def)
  from 1 2 3 show ?thesis by (intro conjI)
qed

end
